theory Spec2Isabelle
  imports Complex_Main "HOL-Library.Word"
begin

unbundle bit_operations_syntax

section \<open>The DHTNEW driver (dhtnew.cpp, version 0.3.2)\<close>

text \<open>
  A shallow embedding of the class \<open>DHTNEW\<close> of \<^verbatim>\<open>src/dhtnew.cpp\<close>. The object is a
  record, the Arduino board is an explicit \<open>world\<close> threaded through every call, and
  each member function returns its result together with the new object and world.

  Naming: C++ identifiers cannot start an Isabelle name with an underscore, so the member
  \<^verbatim>\<open>_type\<close> is the field \<open>m_type\<close> (likewise every other data member), and the private
  methods \<^verbatim>\<open>_read\<close> and \<^verbatim>\<open>_readSensor\<close> are \<open>private_read\<close> and \<open>private_readSensor\<close>.

  Numbers: \<^verbatim>\<open>uint8_t\<close>, \<^verbatim>\<open>uint16_t\<close> and \<^verbatim>\<open>uint32_t\<close> are words of that width. The
  \<^verbatim>\<open>float\<close> members are modelled by \<open>real\<close>: every arithmetic step of the source is kept,
  in exact arithmetic, and rounding is not modelled.
\<close>

type_synonym u8 = "8 word"
type_synonym u16 = "16 word"
type_synonym u32 = "32 word"

subsection \<open>The board\<close>

datatype level = LOW | HIGH

datatype pin_mode = INPUT | OUTPUT | INPUT_PULLUP

text \<open>
  Every call that acts on the board is appended to a log. The three calls that read the
  board (\<^verbatim>\<open>digitalRead\<close>, \<^verbatim>\<open>micros\<close>, \<^verbatim>\<open>millis\<close>) take their answer from a stream that
  belongs to the environment: the \<open>n\<close>-th call gets the \<open>n\<close>-th element, and a counter
  records how many have been consumed. Theorems quantify over all streams.
\<close>

datatype hw_event =
    PinMode u8 pin_mode
  | DigitalWrite u8 level
  | DelayMicroseconds u32
  | NoInterrupts
  | Interrupts
  | Yield

record world =
  line :: "nat \<Rightarrow> level"
  line_reads :: nat
  micros_clock :: "nat \<Rightarrow> u32"
  micros_calls :: nat
  millis_clock :: "nat \<Rightarrow> u32"
  millis_calls :: nat
  hw_log :: "hw_event list"

definition emit :: "hw_event \<Rightarrow> world \<Rightarrow> world" where
  "emit e w = w\<lparr>hw_log := hw_log w @ [e]\<rparr>"

definition pinMode :: "u8 \<Rightarrow> pin_mode \<Rightarrow> world \<Rightarrow> world" where
  "pinMode pin m w = emit (PinMode pin m) w"

definition digitalWrite :: "u8 \<Rightarrow> level \<Rightarrow> world \<Rightarrow> world" where
  "digitalWrite pin v w = emit (DigitalWrite pin v) w"

definition delayMicroseconds :: "u32 \<Rightarrow> world \<Rightarrow> world" where
  "delayMicroseconds us w = emit (DelayMicroseconds us) w"

definition noInterrupts :: "world \<Rightarrow> world" where
  "noInterrupts w = emit NoInterrupts w"

definition interrupts :: "world \<Rightarrow> world" where
  "interrupts w = emit Interrupts w"

definition yield :: "world \<Rightarrow> world" where
  "yield w = emit Yield w"

definition digitalRead :: "world \<Rightarrow> level \<times> world" where
  "digitalRead w = (line w (line_reads w), w\<lparr>line_reads := line_reads w + 1\<rparr>)"

definition micros :: "world \<Rightarrow> u32 \<times> world" where
  "micros w = (micros_clock w (micros_calls w), w\<lparr>micros_calls := micros_calls w + 1\<rparr>)"

definition millis :: "world \<Rightarrow> u32 \<times> world" where
  "millis w = (millis_clock w (millis_calls w), w\<lparr>millis_calls := millis_calls w + 1\<rparr>)"

text \<open>The macro \<^verbatim>\<open>constrain(amt, low, high)\<close> of the Arduino core.\<close>

definition constrain :: "real \<Rightarrow> real \<Rightarrow> real \<Rightarrow> real" where
  "constrain amt low high = (if amt < low then low else if amt > high then high else amt)"

subsection \<open>What the header declares\<close>

text \<open>
  Modelled from the spec: the status constants of \<^verbatim>\<open>dhtnew.h\<close>, which is not among the
  sources. The spec lists the taxonomy OK, ChecksumError, BitShift, SensorNotReady,
  TimeoutA to TimeoutD; the names are those \<^verbatim>\<open>dhtnew.cpp\<close> uses. They are distinct values.
\<close>

datatype status =
    DHTLIB_OK
  | DHTLIB_ERROR_CHECKSUM
  | DHTLIB_ERROR_BIT_SHIFT
  | DHTLIB_ERROR_SENSOR_NOT_READY
  | DHTLIB_ERROR_TIMEOUT_A
  | DHTLIB_ERROR_TIMEOUT_B
  | DHTLIB_ERROR_TIMEOUT_C
  | DHTLIB_ERROR_TIMEOUT_D

text \<open>
  The constants the source takes from outside \<^verbatim>\<open>dhtnew.cpp\<close> are parameters of the model:
  \<^verbatim>\<open>F_CPU\<close> comes from the toolchain, \<^verbatim>\<open>DHTLIB_BIT_THRESHOLD\<close> and
  \<^verbatim>\<open>DHTLIB_INVALID_VALUE\<close> from the header.
\<close>

record platform =
  F_CPU :: nat
  DHTLIB_BIT_THRESHOLD :: u32
  DHTLIB_INVALID_VALUE :: real

text \<open>
  The data members of the class. The header that declares them is not among the sources;
  the types are those at which \<^verbatim>\<open>dhtnew.cpp\<close> uses them (bytes for the buffer, the pin, the
  type and the wake-up delay, a 32-bit time stamp, a 16-bit read delay).
\<close>

record DHTNEW =
  m_dataPin :: u8
  m_wakeupDelay :: u8
  m_type :: u8
  m_humOffset :: real
  m_tempOffset :: real
  m_humidity :: real
  m_temperature :: real
  m_lastRead :: u32
  m_waitForRead :: bool
  m_suppressError :: bool
  m_readDelay :: u16
  m_bits :: "u8 list"

subsection \<open>The defines of dhtnew.cpp\<close>

definition DHTLIB_DHT11_WAKEUP :: u8 where
  "DHTLIB_DHT11_WAKEUP = 18"

definition DHTLIB_DHT_WAKEUP :: u8 where
  "DHTLIB_DHT_WAKEUP = 1"

definition DHTLIB_DHT11_READ_DELAY :: u16 where
  "DHTLIB_DHT11_READ_DELAY = 1000"

definition DHTLIB_DHT22_READ_DELAY :: u16 where
  "DHTLIB_DHT22_READ_DELAY = 2000"

text \<open>\<^verbatim>\<open>#define DHTLIB_TIMEOUT (F_CPU/40000)\<close>, assigned to a \<^verbatim>\<open>uint16_t\<close>.\<close>

definition DHTLIB_TIMEOUT :: "platform \<Rightarrow> u16" where
  "DHTLIB_TIMEOUT p = of_nat (F_CPU p div 40000)"

subsection \<open>Constructor, setType, power control\<close>

text \<open>
  The constructor assigns \<^verbatim>\<open>_dataPin\<close> and \<^verbatim>\<open>_readDelay\<close> only; every other member keeps
  what the member initialisers of the header gave it, the object \<open>h0\<close> here.
\<close>

definition DHTNEW_ctor :: "DHTNEW \<Rightarrow> u8 \<Rightarrow> world \<Rightarrow> DHTNEW \<times> world" where
  "DHTNEW_ctor h0 pin w =
     (let h1 = h0\<lparr>m_dataPin := pin\<rparr>;
          w1 = pinMode (m_dataPin h1) OUTPUT w;
          w2 = digitalWrite (m_dataPin h1) HIGH w1
      in (h1\<lparr>m_readDelay := 0\<rparr>, w2))"

definition setType :: "u8 \<Rightarrow> DHTNEW \<Rightarrow> DHTNEW" where
  "setType t h = (if t = 0 \<or> t = 11 \<or> t = 22 then h\<lparr>m_type := t\<rparr> else h)"

definition getType :: "DHTNEW \<Rightarrow> u8" where
  "getType h = m_type h"

definition powerDown :: "DHTNEW \<Rightarrow> world \<Rightarrow> world" where
  "powerDown h w = digitalWrite (m_dataPin h) LOW w"

subsection \<open>Transport: \<^verbatim>\<open>_readSensor\<close>\<close>

text \<open>
  The polling loop \<^verbatim>\<open>while (digitalRead(_dataPin) == lv) { if (--loopCnt == 0) ...; }\<close>.
  The result is \<open>True\<close> when the counter ran out (the source then returns, or breaks), and
  \<open>False\<close> when the line left the level \<open>lv\<close>. The counter is a \<^verbatim>\<open>uint16_t\<close>: started at
  0 it wraps to 65535.
\<close>

function wait_while :: "level \<Rightarrow> u16 \<Rightarrow> world \<Rightarrow> bool \<times> world" where
  "wait_while lv loopCnt w =
     (if fst (digitalRead w) = lv
      then (if loopCnt - 1 = 0 then (True, snd (digitalRead w))
            else wait_while lv (loopCnt - 1) (snd (digitalRead w)))
      else (False, snd (digitalRead w)))"
  by pat_completeness auto
termination
proof (relation "measure (\<lambda>(lv, loopCnt, w). unat (loopCnt - 1))")
  show "wf (measure (\<lambda>(lv, loopCnt, w). unat (loopCnt - 1)))"
    by simp
next
  fix lv :: level and loopCnt :: u16 and w :: world
  assume "loopCnt - 1 \<noteq> 0"
  then have "unat (loopCnt - 1 - 1) < unat (loopCnt - 1)"
    by (metis unat_minus_one unat_gt_0 diff_less zero_less_one)
  then show "((lv, loopCnt - 1, snd (digitalRead w)), lv, loopCnt, w)
             \<in> measure (\<lambda>(lv, loopCnt, w). unat (loopCnt - 1))"
    by simp
qed

declare wait_while.simps [simp del]

text \<open>
  The loop over the 40 bits, \<^verbatim>\<open>for (uint8_t i = 40; i != 0; i--)\<close>, with its local
  variables \<^verbatim>\<open>mask\<close> (here \<open>msk\<close>) and \<^verbatim>\<open>idx\<close> and the buffer \<^verbatim>\<open>_bits\<close> as arguments. The first
  argument counts the rounds that remain. The first component of the result is the
  timeout the loop returned with, if any. The index \<open>idx\<close> is a \<open>nat\<close>: it grows by one
  after every eighth bit, so it is at most 4 whenever a bit is stored and never wraps.
\<close>

fun read_bits :: "nat \<Rightarrow> platform \<Rightarrow> u8 \<Rightarrow> nat \<Rightarrow> u8 list \<Rightarrow> world \<Rightarrow> status option \<times> u8 list \<times> world" where
  "read_bits 0 p msk idx bs w = (None, bs, w)"
| "read_bits (Suc i) p msk idx bs w =
     (case wait_while LOW (DHTLIB_TIMEOUT p) w of
        (True, w1) \<Rightarrow> (Some DHTLIB_ERROR_TIMEOUT_C, bs, w1)
      | (False, w1) \<Rightarrow>
          (case micros w1 of (t, w2) \<Rightarrow>
            (case wait_while HIGH (DHTLIB_TIMEOUT p) w2 of
               (True, w3) \<Rightarrow> (Some DHTLIB_ERROR_TIMEOUT_D, bs, w3)
             | (False, w3) \<Rightarrow>
                 (case micros w3 of (t', w4) \<Rightarrow>
                    let bs1 = (if t' - t > DHTLIB_BIT_THRESHOLD p
                               then bs[idx := bs ! idx OR msk] else bs);
                        msk1 = drop_bit 1 msk
                    in if msk1 = 0 then read_bits i p 0x80 (idx + 1) bs1 w4
                       else read_bits i p msk1 idx bs1 w4))))"

definition private_readSensor :: "platform \<Rightarrow> DHTNEW \<Rightarrow> world \<Rightarrow> status \<times> DHTNEW \<times> world" where
  "private_readSensor p h w =
     (let h1 = h\<lparr>m_bits := replicate 5 0\<rparr>;
          w1 = yield w;
          w2 = pinMode (m_dataPin h1) OUTPUT w1;
          w3 = digitalWrite (m_dataPin h1) LOW w2;
          w4 = delayMicroseconds (ucast (m_wakeupDelay h1) * 1100) w3;
          w5 = pinMode (m_dataPin h1) INPUT_PULLUP w4;
          w6 = noInterrupts w5
      in case wait_while HIGH (DHTLIB_TIMEOUT p) w6 of
           (True, w7) \<Rightarrow> (DHTLIB_ERROR_SENSOR_NOT_READY, h1, w7)
         | (False, w7) \<Rightarrow>
         (case wait_while LOW (DHTLIB_TIMEOUT p) w7 of
           (True, w8) \<Rightarrow> (DHTLIB_ERROR_TIMEOUT_A, h1, w8)
         | (False, w8) \<Rightarrow>
         (case wait_while HIGH (DHTLIB_TIMEOUT p) w8 of
           (True, w9) \<Rightarrow> (DHTLIB_ERROR_TIMEOUT_B, h1, w9)
         | (False, w9) \<Rightarrow>
         (case read_bits 40 p 0x80 0 (m_bits h1) w9 of
           (Some e, bs, w10) \<Rightarrow> (e, h1\<lparr>m_bits := bs\<rparr>, w10)
         | (None, bs, w10) \<Rightarrow>
             let h2 = h1\<lparr>m_bits := bs\<rparr>;
                 w11 = snd (wait_while LOW (DHTLIB_TIMEOUT p) w10)
             in if m_bits h2 ! 0 AND 0x80 \<noteq> 0 then (DHTLIB_ERROR_BIT_SHIFT, h2, w11)
                else (DHTLIB_OK, h2, w11)))))"

subsection \<open>Interpretation: \<^verbatim>\<open>_read\<close>\<close>

text \<open>
  Lines 146 to 160: the values by sensor type, then the sign. The bytes are promoted to
  \<^verbatim>\<open>int\<close> before the arithmetic, hence \<open>uint\<close>.
\<close>

definition decode_values :: "DHTNEW \<Rightarrow> DHTNEW" where
  "decode_values h =
     (let b = m_bits h;
          h1 = (if m_type h = 22
                then h\<lparr>m_humidity := real_of_int (uint (b ! 0) * 256 + uint (b ! 1)) * 0.1,
                       m_temperature := real_of_int (uint (b ! 2 AND 0x7F) * 256 + uint (b ! 3)) * 0.1\<rparr>
                else h\<lparr>m_humidity := real_of_int (uint (b ! 0)) + real_of_int (uint (b ! 1)) * 0.1,
                       m_temperature := real_of_int (uint (b ! 2)) + real_of_int (uint (b ! 3)) * 0.1\<rparr>)
      in if b ! 2 AND 0x80 \<noteq> 0 then h1\<lparr>m_temperature := - m_temperature h1\<rparr> else h1)"

text \<open>Lines 161 and 162.\<close>

definition apply_offsets :: "DHTNEW \<Rightarrow> DHTNEW" where
  "apply_offsets h =
     (let h1 = h\<lparr>m_humidity := constrain (m_humidity h + m_humOffset h) 0 100\<rparr>
      in h1\<lparr>m_temperature := m_temperature h1 + m_tempOffset h1\<rparr>)"

text \<open>Lines 164 to 170; the sum is a \<^verbatim>\<open>uint8_t\<close>.\<close>

definition test_checksum :: "DHTNEW \<Rightarrow> status" where
  "test_checksum h =
     (let b = m_bits h; sum = b ! 0 + b ! 1 + b ! 2 + b ! 3
      in if b ! 4 \<noteq> sum then DHTLIB_ERROR_CHECKSUM else DHTLIB_OK)"

definition private_read :: "platform \<Rightarrow> DHTNEW \<Rightarrow> world \<Rightarrow> status \<times> DHTNEW \<times> world" where
  "private_read p h w =
     (case private_readSensor p h w of (rv, h1, w1) \<Rightarrow>
        let w2 = interrupts w1;
            w3 = pinMode (m_dataPin h1) OUTPUT w2;
            w4 = digitalWrite (m_dataPin h1) HIGH w3;
            h2 = h1\<lparr>m_lastRead := fst (millis w4)\<rparr>;
            w5 = snd (millis w4)
        in if rv \<noteq> DHTLIB_OK
           then (rv,
                 if m_suppressError h2 = False
                 then h2\<lparr>m_humidity := DHTLIB_INVALID_VALUE p,
                         m_temperature := DHTLIB_INVALID_VALUE p\<rparr>
                 else h2,
                 w5)
           else let h3 = apply_offsets (decode_values h2)
                in (test_checksum h3, h3, w5))"

subsection \<open>The gate and type detection: \<^verbatim>\<open>read\<close>\<close>

text \<open>
  The loop of lines 94 to 98. It ends with \<open>True\<close> when \<^verbatim>\<open>read\<close> returns from inside the
  loop, with \<open>False\<close> when the interval has elapsed, and it does not end (\<open>None\<close>) when the
  caller waits and the clock never gets there.
\<close>

partial_function (option) read_wait :: "DHTNEW \<Rightarrow> world \<Rightarrow> (bool \<times> world) option" where
  "read_wait h w =
     (if fst (millis w) - m_lastRead h < ucast (m_readDelay h)
      then (if \<not> m_waitForRead h then Some (True, snd (millis w))
            else read_wait h (yield (snd (millis w))))
      else Some (False, snd (millis w)))"

declare read_wait.simps [code]

text \<open>Lines 87 to 91.\<close>

definition init_readDelay :: "DHTNEW \<Rightarrow> DHTNEW" where
  "init_readDelay h =
     (if m_readDelay h = 0
      then (let h1 = h\<lparr>m_readDelay := DHTLIB_DHT22_READ_DELAY\<rparr>
            in if m_type h1 = 11 then h1\<lparr>m_readDelay := DHTLIB_DHT11_READ_DELAY\<rparr> else h1)
      else h)"

definition read :: "platform \<Rightarrow> DHTNEW \<Rightarrow> world \<Rightarrow> (status \<times> DHTNEW \<times> world) option" where
  "read p h0 w =
     (let h = init_readDelay h0
      in if m_type h \<noteq> 0
         then (case read_wait h w of
                 None \<Rightarrow> None
               | Some (True, w1) \<Rightarrow> Some (DHTLIB_OK, h, w1)
               | Some (False, w1) \<Rightarrow> Some (private_read p h w1))
         else (case private_read p (h\<lparr>m_type := 22, m_wakeupDelay := DHTLIB_DHT_WAKEUP\<rparr>) w of
                 (rv, h1, w1) \<Rightarrow>
                   if rv = DHTLIB_OK then Some (rv, h1, w1)
                   else (case private_read p (h1\<lparr>m_type := 11, m_wakeupDelay := DHTLIB_DHT11_WAKEUP\<rparr>) w1 of
                           (rv', h2, w2) \<Rightarrow>
                             if rv' = DHTLIB_OK then Some (rv', h2, w2)
                             else Some (rv', h2\<lparr>m_type := 0\<rparr>, w2))))"

text \<open>\<^verbatim>\<open>powerUp\<close> returns \<^verbatim>\<open>void\<close>: only the object and the board come back.\<close>

definition powerUp :: "DHTNEW \<Rightarrow> platform \<Rightarrow> world \<Rightarrow> (DHTNEW \<times> world) option" where
  "powerUp h p w =
     (case read p h (digitalWrite (m_dataPin h) HIGH w) of
        None \<Rightarrow> None
      | Some (rv, h1, w1) \<Rightarrow> Some (h1, w1))"

subsection \<open>A simulated sensor\<close>

text \<open>
  A board for concrete runs. The line changes level at every read, beginning low, so
  each polling loop of the transport ends at its first read. The microsecond clock shows
  70 us across the high phase of a 1 bit and 0 us across that of a 0 bit. The sensor
  sends the bytes of \<open>frames\<close> one after the other, most significant bit first, five
  to a reading.
\<close>

definition sensor_line :: "nat \<Rightarrow> level" where
  "sensor_line n = (if odd n then HIGH else LOW)"

definition sensor_micros :: "u8 list \<Rightarrow> nat \<Rightarrow> u32" where
  "sensor_micros frames n =
     (if odd n \<and> n div 16 < length frames \<and> bit (frames ! (n div 16)) (7 - (n div 2) mod 8)
      then 70 else 0)"

definition sensor_world :: "u8 list \<Rightarrow> (nat \<Rightarrow> u32) \<Rightarrow> world" where
  "sensor_world frames ms =
     \<lparr>line = sensor_line, line_reads = 0, micros_clock = sensor_micros frames,
      micros_calls = 0, millis_clock = ms, millis_calls = 0, hw_log = []\<rparr>"

text \<open>A millisecond clock on which five seconds pass between two calls of \<^verbatim>\<open>millis\<close>.\<close>

definition slow_clock :: "nat \<Rightarrow> u32" where
  "slow_clock n = 5000 * (of_nat n + 1)"

text \<open>
  Three things the simulated sensor sends. The first: a frame of a DHT22 at 60.4 percent
  and -5.0 degrees, then the frame of +26.0 degrees with a wrong checksum byte. The
  second: a frame whose first bit is set (and whose checksum byte fits), then the frame
  of a DHT11 at 60.0 percent and 25.5 degrees. The third: the frame with the wrong
  checksum byte, then the frame of the DHT11.
\<close>

definition good_then_bad :: "u8 list" where
  "good_then_bad = [0x02, 0x5C, 0x80, 0x32, 0x10, 0x02, 0x5C, 0x01, 0x04, 0x64]"

definition shifted_then_dht11 :: "u8 list" where
  "shifted_then_dht11 = [0x82, 0x5C, 0x01, 0x04, 0xE3, 0x3C, 0x00, 0x19, 0x05, 0x5A]"


text \<open>A board with no sensor on the pin: the pulled-up line reads high for ever.\<close>

definition silent_board :: world where
  "silent_board =
     \<lparr>line = (\<lambda>n. HIGH), line_reads = 0, micros_clock = (\<lambda>n. 0), micros_calls = 0,
      millis_clock = slow_clock, millis_calls = 0, hw_log = []\<rparr>"

text \<open>
  A 16 MHz board. The bit threshold is the 50 us of the spec; the invalid value is an
  arbitrary choice, since the header that defines it is not among the sources.
\<close>

definition uno :: platform where
  "uno = \<lparr>F_CPU = 16000000, DHTLIB_BIT_THRESHOLD = 50, DHTLIB_INVALID_VALUE = - 999\<rparr>"

text \<open>
  Two objects on pin 6. The first is as the constructor leaves it when the header
  initialises the type to 0, the offsets to 0 and the flags to false (the wake-up delay
  and the values are of no account before the first read). The second is locked to the
  DHT22, with the read delay already set, as it is after a detection.
\<close>

definition fresh_sensor :: DHTNEW where
  "fresh_sensor =
     \<lparr>m_dataPin = 6, m_wakeupDelay = 0, m_type = 0, m_humOffset = 0, m_tempOffset = 0,
      m_humidity = 0, m_temperature = 0, m_lastRead = 0, m_waitForRead = False,
      m_suppressError = False, m_readDelay = 0, m_bits = [0, 0, 0, 0, 0]\<rparr>"

definition dht22_sensor :: "bool \<Rightarrow> DHTNEW" where
  "dht22_sensor suppress =
     \<lparr>m_dataPin = 6, m_wakeupDelay = 1, m_type = 22, m_humOffset = 0, m_tempOffset = 0,
      m_humidity = 0, m_temperature = 0, m_lastRead = 0, m_waitForRead = False,
      m_suppressError = suppress, m_readDelay = 2000, m_bits = [0, 0, 0, 0, 0]\<rparr>"

text \<open>
  The object and the board after \<open>fresh_sensor\<close> has been read once on the board
  \<open>sensor_world good_then_bad slow_clock\<close>: the type is detected as 22 at the first
  attempt (lemma \<open>fresh_detects_dht22\<close>).
\<close>

definition detected_dht22 :: DHTNEW where
  "detected_dht22 =
     \<lparr>m_dataPin = 6, m_wakeupDelay = 1, m_type = 22, m_humOffset = 0, m_tempOffset = 0,
      m_humidity = 60.4, m_temperature = - 5, m_lastRead = 5000, m_waitForRead = False,
      m_suppressError = False, m_readDelay = 2000, m_bits = [0x02, 0x5C, 0x80, 0x32, 0x10]\<rparr>"

definition board_after_detection :: world where
  "board_after_detection =
     \<lparr>line = sensor_line, line_reads = 84, micros_clock = sensor_micros good_then_bad,
      micros_calls = 80, millis_clock = slow_clock, millis_calls = 1,
      hw_log = [Yield, PinMode 6 OUTPUT, DigitalWrite 6 LOW, DelayMicroseconds 1100,
                PinMode 6 INPUT_PULLUP, NoInterrupts, Interrupts, PinMode 6 OUTPUT,
                DigitalWrite 6 HIGH]\<rparr>"

subsection \<open>Notions used in the statements\<close>

text \<open>
  The calls one reading attempt (\<^verbatim>\<open>_read\<close>, with the \<^verbatim>\<open>_readSensor\<close> inside it) makes on
  the board, in order: lines 210 to 222 and 129 to 133. The wake-up pulse is the only
  one that depends on the sensor type: 1100 us with \<^verbatim>\<open>DHTLIB_DHT_WAKEUP\<close>, 19800 us with
  \<^verbatim>\<open>DHTLIB_DHT11_WAKEUP\<close>.
\<close>

definition attempt_log :: "u8 \<Rightarrow> u8 \<Rightarrow> hw_event list" where
  "attempt_log pin wake =
     [Yield, PinMode pin OUTPUT, DigitalWrite pin LOW, DelayMicroseconds (ucast wake * 1100),
      PinMode pin INPUT_PULLUP, NoInterrupts, Interrupts, PinMode pin OUTPUT,
      DigitalWrite pin HIGH]"

text \<open>
  A sequence of calls of \<^verbatim>\<open>read\<close> on one object; the \<open>k\<close>-th call finds the board in the
  \<open>k\<close>-th state of the list, whatever happened to it in between.
\<close>

fun read_seq :: "platform \<Rightarrow> DHTNEW \<Rightarrow> world list \<Rightarrow> DHTNEW option" where
  "read_seq p h [] = Some h"
| "read_seq p h (w # ws) =
     (case read p h w of None \<Rightarrow> None | Some (rv, h1, w1) \<Rightarrow> read_seq p h1 ws)"

section \<open>Properties\<close>

subsection \<open>What the loops leave untouched\<close>

text \<open>
  The polling loops only consume line samples, and the bit loop only line samples and
  microsecond readings. Neither touches the log, the millisecond clock or the streams.
\<close>

lemma wait_while_fields:
  "line (snd (wait_while lv c w)) = line w \<and>
   micros_clock (snd (wait_while lv c w)) = micros_clock w \<and>
   micros_calls (snd (wait_while lv c w)) = micros_calls w \<and>
   millis_clock (snd (wait_while lv c w)) = millis_clock w \<and>
   millis_calls (snd (wait_while lv c w)) = millis_calls w \<and>
   hw_log (snd (wait_while lv c w)) = hw_log w"
proof (induction lv c w rule: wait_while.induct)
  case (1 lv loopCnt w)
  show ?case
  proof (cases "fst (digitalRead w) = lv \<and> loopCnt - 1 \<noteq> 0")
    case True
    then have "wait_while lv loopCnt w = wait_while lv (loopCnt - 1) (snd (digitalRead w))"
      by (subst wait_while.simps) simp
    with 1 True show ?thesis
      by (simp add: digitalRead_def)
  next
    case False
    then have "snd (wait_while lv loopCnt w) = snd (digitalRead w)"
      by (subst wait_while.simps) auto
    then show ?thesis
      by (simp add: digitalRead_def)
  qed
qed

lemma wait_while_fieldsD:
  "wait_while lv c w = (b, w') \<Longrightarrow>
     line w' = line w \<and> micros_clock w' = micros_clock w \<and> micros_calls w' = micros_calls w \<and>
     millis_clock w' = millis_clock w \<and> millis_calls w' = millis_calls w \<and> hw_log w' = hw_log w"
  using wait_while_fields[of lv c w] by simp

lemma read_bits_result:
  "read_bits i p msk idx bs w = (e, bs', w') \<Longrightarrow>
     e \<in> {None, Some DHTLIB_ERROR_TIMEOUT_C, Some DHTLIB_ERROR_TIMEOUT_D} \<and>
     length bs' = length bs \<and>
     line w' = line w \<and> micros_clock w' = micros_clock w \<and>
     millis_clock w' = millis_clock w \<and> millis_calls w' = millis_calls w \<and>
     hw_log w' = hw_log w"
proof (induction i arbitrary: msk idx bs w)
  case 0
  then show ?case by auto
next
  case (Suc i)
  obtain t1 wa where a: "wait_while LOW (DHTLIB_TIMEOUT p) w = (t1, wa)"
    by fastforce
  obtain t2 wb where b: "wait_while HIGH (DHTLIB_TIMEOUT p) (snd (micros wa)) = (t2, wb)"
    by fastforce
  have fa: "line wa = line w \<and> micros_clock wa = micros_clock w \<and>
      millis_clock wa = millis_clock w \<and> millis_calls wa = millis_calls w \<and>
      hw_log wa = hw_log w"
    using wait_while_fields[of LOW "DHTLIB_TIMEOUT p" w] a by simp
  have fb: "line wb = line w \<and> micros_clock wb = micros_clock w \<and>
      millis_clock wb = millis_clock w \<and> millis_calls wb = millis_calls w \<and>
      hw_log wb = hw_log w"
    using wait_while_fields[of HIGH "DHTLIB_TIMEOUT p" "snd (micros wa)"] b fa
    by (simp add: micros_def)
  show ?case
  proof (cases t1)
    case True
    with Suc.prems a fa show ?thesis by simp
  next
    case f1: False
    show ?thesis
    proof (cases t2)
      case True
      with Suc.prems a b f1 fb show ?thesis
        by (simp add: micros_def)
    next
      case f2: False
      define bs1 where "bs1 = (if fst (micros wb) - fst (micros wa) > DHTLIB_BIT_THRESHOLD p
                               then bs[idx := bs ! idx OR msk] else bs)"
      define msk' where "msk' = (if drop_bit 1 msk = 0 then 0x80 else drop_bit 1 msk)"
      define idx' where "idx' = (if drop_bit 1 msk = 0 then idx + 1 else idx)"
      have l: "length bs1 = length bs"
        by (simp add: bs1_def)
      have r: "read_bits i p msk' idx' bs1 (snd (micros wb)) = (e, bs', w')"
        using Suc.prems a b f1 f2
        by (simp add: micros_def Let_def bs1_def msk'_def idx'_def split: if_splits)
      from Suc.IH[OF r] l fb show ?thesis
        by (simp add: micros_def)
    qed
  qed
qed

subsection \<open>Timeouts\<close>

text \<open>
  A polling loop gives up after as many reads as its counter holds, when the line stays
  at the level it waits to leave. A line that stays high makes the transport report that
  the sensor is not ready.
\<close>

lemma wait_while_timeout:
  "\<forall>k < unat c. line w (line_reads w + k) = lv \<Longrightarrow> c \<noteq> 0 \<Longrightarrow>
   wait_while lv c w = (True, w\<lparr>line_reads := line_reads w + unat c\<rparr>)"
proof (induction lv c w rule: wait_while.induct)
  case (1 lv loopCnt w)
  from "1.prems" have pos: "0 < unat loopCnt"
    by (simp add: unat_gt_0)
  with "1.prems" have first: "fst (digitalRead w) = lv"
    by (auto simp: digitalRead_def dest: spec[of _ 0])
  show ?case
  proof (cases "loopCnt - 1 = 0")
    case True
    then have "loopCnt = 1"
      by simp
    with first show ?thesis
      by (subst wait_while.simps) (simp add: digitalRead_def)
  next
    case False
    have u: "unat (loopCnt - 1) = unat loopCnt - 1"
      using "1.prems"(2) by (simp add: unat_minus_one)
    have "\<forall>k < unat (loopCnt - 1).
        line (snd (digitalRead w)) (line_reads (snd (digitalRead w)) + k) = lv"
    proof (intro allI impI)
      fix k assume "k < unat (loopCnt - 1)"
      with u have "Suc k < unat loopCnt"
        by simp
      with "1.prems"(1) have "line w (line_reads w + Suc k) = lv"
        by blast
      then show "line (snd (digitalRead w)) (line_reads (snd (digitalRead w)) + k) = lv"
        by (simp add: digitalRead_def)
    qed
    from "1.IH"[OF first False this False]
    have "wait_while lv (loopCnt - 1) (snd (digitalRead w)) =
        (True, (snd (digitalRead w))\<lparr>line_reads := line_reads (snd (digitalRead w)) + unat (loopCnt - 1)\<rparr>)" .
    with first False u pos show ?thesis
      by (subst wait_while.simps) (simp add: digitalRead_def)
  qed
qed

lemma silent_line_not_ready:
  assumes "\<forall>k < unat (DHTLIB_TIMEOUT p). line w (line_reads w + k) = HIGH"
    and "DHTLIB_TIMEOUT p \<noteq> 0"
  shows "fst (private_readSensor p h w) = DHTLIB_ERROR_SENSOR_NOT_READY"
proof -
  let ?w6 = "noInterrupts (pinMode (m_dataPin h) INPUT_PULLUP
      (delayMicroseconds (ucast (m_wakeupDelay h) * 1100)
        (digitalWrite (m_dataPin h) LOW (pinMode (m_dataPin h) OUTPUT (yield w)))))"
  have l: "line ?w6 = line w" "line_reads ?w6 = line_reads w"
    by (simp_all add: yield_def pinMode_def digitalWrite_def delayMicroseconds_def
        noInterrupts_def emit_def)
  from assms(1) have "\<forall>k < unat (DHTLIB_TIMEOUT p). line ?w6 (line_reads ?w6 + k) = HIGH"
    by (simp only: l)
  from wait_while_timeout[OF this assms(2)] show ?thesis
    by (simp add: private_readSensor_def Let_def)
qed

subsection \<open>The shape of a reading attempt\<close>

text \<open>
  \<^verbatim>\<open>_readSensor\<close> changes no member but the buffer, which has five bytes afterwards; it
  never reports a checksum error; and once the forty bits are in, its status is decided by
  the first bit of the frame.
\<close>

lemma private_readSensor_result:
  assumes "private_readSensor p h w = (rv, h1, w1)"
  shows "rv \<noteq> DHTLIB_ERROR_CHECKSUM"
    and "h1 = h\<lparr>m_bits := m_bits h1\<rparr>"
    and "length (m_bits h1) = 5"
    and "rv = DHTLIB_OK \<or> rv = DHTLIB_ERROR_BIT_SHIFT \<Longrightarrow>
           (rv = DHTLIB_ERROR_BIT_SHIFT) = (m_bits h1 ! 0 AND 0x80 \<noteq> 0)"
    and "line w1 = line w" and "micros_clock w1 = micros_clock w"
    and "millis_clock w1 = millis_clock w" and "millis_calls w1 = millis_calls w"
    and "hw_log w1 = hw_log w @
           [Yield, PinMode (m_dataPin h) OUTPUT, DigitalWrite (m_dataPin h) LOW,
            DelayMicroseconds (ucast (m_wakeupDelay h) * 1100),
            PinMode (m_dataPin h) INPUT_PULLUP, NoInterrupts]"
proof -
  define w6 where "w6 = noInterrupts (pinMode (m_dataPin h) INPUT_PULLUP
      (delayMicroseconds (ucast (m_wakeupDelay h) * 1100)
        (digitalWrite (m_dataPin h) LOW (pinMode (m_dataPin h) OUTPUT (yield w)))))"
  obtain t7 w7 where a: "wait_while HIGH (DHTLIB_TIMEOUT p) w6 = (t7, w7)" by fastforce
  obtain t8 w8 where b: "wait_while LOW (DHTLIB_TIMEOUT p) w7 = (t8, w8)" by fastforce
  obtain t9 w9 where c: "wait_while HIGH (DHTLIB_TIMEOUT p) w8 = (t9, w9)" by fastforce
  obtain e bs w10 where d: "read_bits 40 p 0x80 0 (replicate 5 0) w9 = (e, bs, w10)"
    by (cases "read_bits 40 p 0x80 0 (replicate 5 0) w9") auto
  obtain t11 w11 where f: "wait_while LOW (DHTLIB_TIMEOUT p) w10 = (t11, w11)" by fastforce
  note fs = wait_while_fieldsD[OF a] wait_while_fieldsD[OF b] wait_while_fieldsD[OF c]
    read_bits_result[OF d] wait_while_fieldsD[OF f]
  have w6: "line w6 = line w" "micros_clock w6 = micros_clock w" "millis_clock w6 = millis_clock w"
    "millis_calls w6 = millis_calls w"
    "hw_log w6 = hw_log w @
           [Yield, PinMode (m_dataPin h) OUTPUT, DigitalWrite (m_dataPin h) LOW,
            DelayMicroseconds (ucast (m_wakeupDelay h) * 1100),
            PinMode (m_dataPin h) INPUT_PULLUP, NoInterrupts]"
    by (simp_all add: w6_def yield_def pinMode_def digitalWrite_def delayMicroseconds_def
        noInterrupts_def emit_def)
  have unfold: "private_readSensor p h w =
      (if t7 then (DHTLIB_ERROR_SENSOR_NOT_READY, h\<lparr>m_bits := replicate 5 0\<rparr>, w7)
       else if t8 then (DHTLIB_ERROR_TIMEOUT_A, h\<lparr>m_bits := replicate 5 0\<rparr>, w8)
       else if t9 then (DHTLIB_ERROR_TIMEOUT_B, h\<lparr>m_bits := replicate 5 0\<rparr>, w9)
       else case e of Some err \<Rightarrow> (err, h\<lparr>m_bits := bs\<rparr>, w10)
            | None \<Rightarrow> (if bs ! 0 AND 0x80 \<noteq> 0 then DHTLIB_ERROR_BIT_SHIFT else DHTLIB_OK,
                        h\<lparr>m_bits := bs\<rparr>, w11))"
    using a b c d f
    by (simp add: private_readSensor_def Let_def w6_def[symmetric] split: option.splits)
  from assms unfold fs w6 show "rv \<noteq> DHTLIB_ERROR_CHECKSUM"
    by (auto split: if_splits option.splits)
  from assms unfold fs w6 show "h1 = h\<lparr>m_bits := m_bits h1\<rparr>"
    by (auto split: if_splits option.splits)
  from assms unfold fs w6 show "length (m_bits h1) = 5"
    by (auto split: if_splits option.splits)
  from assms unfold fs w6 show "rv = DHTLIB_OK \<or> rv = DHTLIB_ERROR_BIT_SHIFT \<Longrightarrow>
           (rv = DHTLIB_ERROR_BIT_SHIFT) = (m_bits h1 ! 0 AND 0x80 \<noteq> 0)"
    by (auto split: if_splits option.splits)
  from assms unfold fs w6 show "line w1 = line w" and "micros_clock w1 = micros_clock w"
    and "millis_clock w1 = millis_clock w" and "millis_calls w1 = millis_calls w"
    by (auto split: if_splits option.splits)
  from assms unfold fs w6 show "hw_log w1 = hw_log w @
           [Yield, PinMode (m_dataPin h) OUTPUT, DigitalWrite (m_dataPin h) LOW,
            DelayMicroseconds (ucast (m_wakeupDelay h) * 1100),
            PinMode (m_dataPin h) INPUT_PULLUP, NoInterrupts]"
    by (auto split: if_splits option.splits)
qed


lemma decode_values_fields:
  "m_type (decode_values h) = m_type h" "m_wakeupDelay (decode_values h) = m_wakeupDelay h"
  "m_dataPin (decode_values h) = m_dataPin h" "m_readDelay (decode_values h) = m_readDelay h"
  "m_humOffset (decode_values h) = m_humOffset h" "m_tempOffset (decode_values h) = m_tempOffset h"
  "m_lastRead (decode_values h) = m_lastRead h" "m_bits (decode_values h) = m_bits h"
  "m_waitForRead (decode_values h) = m_waitForRead h"
  "m_suppressError (decode_values h) = m_suppressError h"
  by (simp_all add: decode_values_def Let_def)

lemma apply_offsets_fields:
  "m_type (apply_offsets h) = m_type h" "m_wakeupDelay (apply_offsets h) = m_wakeupDelay h"
  "m_dataPin (apply_offsets h) = m_dataPin h" "m_readDelay (apply_offsets h) = m_readDelay h"
  "m_humOffset (apply_offsets h) = m_humOffset h" "m_tempOffset (apply_offsets h) = m_tempOffset h"
  "m_lastRead (apply_offsets h) = m_lastRead h" "m_bits (apply_offsets h) = m_bits h"
  "m_waitForRead (apply_offsets h) = m_waitForRead h"
  "m_suppressError (apply_offsets h) = m_suppressError h"
  by (simp_all add: apply_offsets_def Let_def)

lemma init_readDelay_fields:
  "m_type (init_readDelay h) = m_type h" "m_wakeupDelay (init_readDelay h) = m_wakeupDelay h"
  "m_dataPin (init_readDelay h) = m_dataPin h" "m_waitForRead (init_readDelay h) = m_waitForRead h"
  "m_lastRead (init_readDelay h) = m_lastRead h" "m_humidity (init_readDelay h) = m_humidity h"
  "m_temperature (init_readDelay h) = m_temperature h" "m_bits (init_readDelay h) = m_bits h"
  "m_suppressError (init_readDelay h) = m_suppressError h"
  by (simp_all add: init_readDelay_def Let_def)

lemma test_checksum_values:
  "test_checksum (apply_offsets (decode_values h)) = test_checksum h"
  by (simp add: test_checksum_def apply_offsets_def decode_values_def Let_def)

lemma private_read_unfold:
  assumes "private_readSensor p h w = (rv, h1, w1)"
  shows "private_read p h w =
     (let h2 = h1\<lparr>m_lastRead := millis_clock w (millis_calls w)\<rparr>;
          w5 = w1\<lparr>hw_log := hw_log w1 @ [Interrupts, PinMode (m_dataPin h) OUTPUT,
                                            DigitalWrite (m_dataPin h) HIGH],
                   millis_calls := millis_calls w + 1\<rparr>
      in if rv \<noteq> DHTLIB_OK
         then (rv,
               if \<not> m_suppressError h
               then h2\<lparr>m_humidity := DHTLIB_INVALID_VALUE p,
                       m_temperature := DHTLIB_INVALID_VALUE p\<rparr>
               else h2,
               w5)
         else (test_checksum h1, apply_offsets (decode_values h2), w5))"
proof -
  note r = private_readSensor_result[OF assms]
  have pin: "m_dataPin h1 = m_dataPin h" and sup: "m_suppressError h1 = m_suppressError h"
    by (subst r(2), simp)+
  have cs: "test_checksum (h1\<lparr>m_lastRead := t\<rparr>) = test_checksum h1" for t
    by (simp add: test_checksum_def)
  show ?thesis
    using r(7,8)
    by (simp add: private_read_def assms Let_def pin sup interrupts_def pinMode_def
        digitalWrite_def emit_def millis_def test_checksum_values cs)
qed

lemma private_read_fields:
  assumes "private_read p h w = (rv, h', w')"
  shows "m_type h' = m_type h" and "m_wakeupDelay h' = m_wakeupDelay h"
    and "m_dataPin h' = m_dataPin h" and "m_readDelay h' = m_readDelay h"
    and "m_waitForRead h' = m_waitForRead h" and "m_suppressError h' = m_suppressError h"
    and "m_humOffset h' = m_humOffset h" and "m_tempOffset h' = m_tempOffset h"
    and "m_lastRead h' = millis_clock w (millis_calls w)"
    and "hw_log w' = hw_log w @ attempt_log (m_dataPin h) (m_wakeupDelay h)"
    and "millis_calls w' = millis_calls w + 1" and "millis_clock w' = millis_clock w"
proof -
  obtain rv1 h1 w1 where rs: "private_readSensor p h w = (rv1, h1, w1)"
    by (cases "private_readSensor p h w") auto
  note r = private_readSensor_result[OF rs]
  have h1: "m_type h1 = m_type h" "m_wakeupDelay h1 = m_wakeupDelay h"
    "m_dataPin h1 = m_dataPin h" "m_readDelay h1 = m_readDelay h"
    "m_waitForRead h1 = m_waitForRead h" "m_suppressError h1 = m_suppressError h"
    "m_humOffset h1 = m_humOffset h" "m_tempOffset h1 = m_tempOffset h"
    by (subst r(2), simp)+
  from assms have eq: "h' = fst (snd (private_read p h w))" "w' = snd (snd (private_read p h w))"
    by simp_all
  show "m_type h' = m_type h" and "m_wakeupDelay h' = m_wakeupDelay h"
    and "m_dataPin h' = m_dataPin h" and "m_readDelay h' = m_readDelay h"
    and "m_waitForRead h' = m_waitForRead h" and "m_suppressError h' = m_suppressError h"
    and "m_humOffset h' = m_humOffset h" and "m_tempOffset h' = m_tempOffset h"
    and "m_lastRead h' = millis_clock w (millis_calls w)"
    by (simp_all add: eq private_read_unfold[OF rs] Let_def h1 decode_values_fields
        apply_offsets_fields)
  show "hw_log w' = hw_log w @ attempt_log (m_dataPin h) (m_wakeupDelay h)"
    and "millis_calls w' = millis_calls w + 1" and "millis_clock w' = millis_clock w"
    by (simp_all add: eq private_read_unfold[OF rs] Let_def r(7,9) attempt_log_def)
qed


lemma msb_bit: "(b AND 0x80 \<noteq> 0) = bit (b :: u8) 7"
  using and_exp_eq_0_iff_not_bit[of b 7] by simp

text \<open>
  On a board whose \<^verbatim>\<open>int\<close> has 16 bits the two products of lines 148 and 149 stay below
  \<open>2 ^ 15\<close>, because the values are decoded only when the first bit of the frame is
  clear. The model can therefore compute them in \<open>int\<close>.
\<close>

lemma and7f: "(b0 :: u8) AND 0x80 = 0 \<Longrightarrow> b0 AND 0x7F = b0"
proof -
  assume a: "b0 AND 0x80 = 0"
  have m: "(0x80 :: u8) OR 0x7F = - 1" by simp
  have "b0 = b0 AND (0x80 OR 0x7F)" by (simp only: m and.right_neutral)
  also have "\<dots> = (b0 AND 0x80) OR (b0 AND 0x7F)"
    by (simp only: bit.conj_disj_distrib)
  finally show ?thesis using a by simp
qed

lemma le127: "uint ((b :: u8) AND 0x7F) \<le> 127"
proof -
  have "b AND 0x7F \<le> 0x7F" by (rule word_and_le1)
  then show ?thesis by (simp add: word_le_def)
qed

lemma decode_fits_int16:
  fixes b0 b1 b2 b3 :: u8
  assumes "b0 AND 0x80 = 0"
  shows "uint b0 * 256 + uint b1 < 2 ^ 15" and "uint (b2 AND 0x7F) * 256 + uint b3 < 2 ^ 15"
proof -
  have "uint b0 \<le> 127"
    using le127[of b0] and7f[OF assms] by simp
  moreover have "uint b1 < 256" "uint b3 < 256"
    using uint_lt2p[of b1] uint_lt2p[of b3] by simp_all
  ultimately show "uint b0 * 256 + uint b1 < 2 ^ 15" and "uint (b2 AND 0x7F) * 256 + uint b3 < 2 ^ 15"
    using le127[of b2] by simp_all
qed

lemma decode_no_overflow:
  assumes "private_readSensor p h w = (DHTLIB_OK, h1, w1)"
  shows "uint (m_bits h1 ! 0) * 256 + uint (m_bits h1 ! 1) < 2 ^ 15"
    and "uint (m_bits h1 ! 2 AND 0x7F) * 256 + uint (m_bits h1 ! 3) < 2 ^ 15"
proof -
  from private_readSensor_result(4)[OF assms] have "m_bits h1 ! 0 AND 0x80 = 0"
    by simp
  then show "uint (m_bits h1 ! 0) * 256 + uint (m_bits h1 ! 1) < 2 ^ 15"
    and "uint (m_bits h1 ! 2 AND 0x7F) * 256 + uint (m_bits h1 ! 3) < 2 ^ 15"
    by (rule decode_fits_int16)+
qed

subsection \<open>The gate and the type\<close>

lemma read_wait_elapsed:
  "\<not> millis_clock w (millis_calls w) - m_lastRead h < ucast (m_readDelay h) \<Longrightarrow>
   read_wait h w = Some (False, w\<lparr>millis_calls := millis_calls w + 1\<rparr>)"
  by (subst read_wait.simps) (simp add: millis_def)

lemma read_wait_return:
  "millis_clock w (millis_calls w) - m_lastRead h < ucast (m_readDelay h) \<Longrightarrow>
   \<not> m_waitForRead h \<Longrightarrow>
   read_wait h w = Some (True, w\<lparr>millis_calls := millis_calls w + 1\<rparr>)"
  by (subst read_wait.simps) (simp add: millis_def)

lemma read_known_variant:
  assumes "m_type h0 \<noteq> 0" and "read_wait (init_readDelay h0) w0 = Some (False, w)"
  shows "read p h0 w0 = Some (private_read p (init_readDelay h0) w)"
proof -
  have "m_type (init_readDelay h0) \<noteq> 0"
    using assms(1) by (simp add: init_readDelay_def Let_def)
  with assms(2) show ?thesis
    by (simp add: read_def Let_def)
qed

lemma read_type_step:
  assumes "read p h w = Some (rv, h1, w1)"
  shows "(m_type h \<noteq> 0 \<longrightarrow> m_type h1 = m_type h) \<and>
         (m_type h = 0 \<longrightarrow> (rv = DHTLIB_OK \<and> (m_type h1 = 22 \<or> m_type h1 = 11)) \<or>
                            (rv \<noteq> DHTLIB_OK \<and> m_type h1 = 0))"
proof (cases "m_type h = 0")
  case True
  define hB where "hB = (init_readDelay h)\<lparr>m_type := 22, m_wakeupDelay := DHTLIB_DHT_WAKEUP\<rparr>"
  obtain rv1 ha wa where a: "private_read p hB w = (rv1, ha, wa)"
    by (cases "private_read p hB w") auto
  define hA where "hA = ha\<lparr>m_type := 11, m_wakeupDelay := DHTLIB_DHT11_WAKEUP\<rparr>"
  obtain rv2 hb wb where b: "private_read p hA wa = (rv2, hb, wb)"
    by (cases "private_read p hA wa") auto
  have "m_type ha = 22" "m_type hb = 11"
    using private_read_fields(1)[OF a] private_read_fields(1)[OF b] by (simp_all add: hB_def hA_def)
  with assms True a b show ?thesis
    by (auto simp: read_def Let_def init_readDelay_fields hB_def[symmetric] hA_def[symmetric]
        split: if_splits)
next
  case False
  have "m_type h1 = m_type (init_readDelay h)"
    if "private_read p (init_readDelay h) wg = (rv, h1, w1)" for wg
    using private_read_fields(1)[OF that] .
  with assms False show ?thesis
    by (auto simp: read_def Let_def init_readDelay_fields split: option.splits bool.splits)
qed

text \<open>
  The constructor does not assign \<^verbatim>\<open>_type\<close>: an object starts with the type the header
  initialises it to.
\<close>

lemma ctor_keeps_type: "m_type (fst (DHTNEW_ctor h0 pin w)) = m_type h0"
  by (simp add: DHTNEW_ctor_def Let_def)

subsection \<open>What a call stores\<close>

text \<open>
  The values a reading attempt leaves in the object, written out: after a successful
  transport the formulas of the sensor type with the sign, the offsets and the bound on
  the humidity; after a failed one the invalid value, or the old values under error
  suppression. On the detection path \<^verbatim>\<open>read\<close> returns the first attempt if it succeeded and
  the second otherwise.
\<close>

lemma stored_values:
  assumes "private_readSensor p h w = (DHTLIB_OK, h1, w1)"
  shows "m_humidity (fst (snd (private_read p h w))) =
           constrain ((if m_type h = 22
                       then real_of_int (uint (m_bits h1 ! 0) * 256 + uint (m_bits h1 ! 1)) * 0.1
                       else real_of_int (uint (m_bits h1 ! 0)) + real_of_int (uint (m_bits h1 ! 1)) * 0.1)
                      + m_humOffset h) 0 100"
    and "m_temperature (fst (snd (private_read p h w))) =
           (if bit (m_bits h1 ! 2) 7
            then - (if m_type h = 22
                    then real_of_int (uint (m_bits h1 ! 2 AND 0x7F) * 256 + uint (m_bits h1 ! 3)) * 0.1
                    else real_of_int (uint (m_bits h1 ! 2)) + real_of_int (uint (m_bits h1 ! 3)) * 0.1)
            else (if m_type h = 22
                  then real_of_int (uint (m_bits h1 ! 2 AND 0x7F) * 256 + uint (m_bits h1 ! 3)) * 0.1
                  else real_of_int (uint (m_bits h1 ! 2)) + real_of_int (uint (m_bits h1 ! 3)) * 0.1))
           + m_tempOffset h"
    and "m_bits (fst (snd (private_read p h w))) = m_bits h1"
proof -
  note r = private_readSensor_result[OF assms]
  have f: "m_type h1 = m_type h" "m_humOffset h1 = m_humOffset h" "m_tempOffset h1 = m_tempOffset h"
    by (subst r(2), simp)+
  show "m_humidity (fst (snd (private_read p h w))) =
           constrain ((if m_type h = 22
                       then real_of_int (uint (m_bits h1 ! 0) * 256 + uint (m_bits h1 ! 1)) * 0.1
                       else real_of_int (uint (m_bits h1 ! 0)) + real_of_int (uint (m_bits h1 ! 1)) * 0.1)
                      + m_humOffset h) 0 100"
    by (simp add: private_read_unfold[OF assms] Let_def apply_offsets_def decode_values_def f)
  show "m_temperature (fst (snd (private_read p h w))) =
           (if bit (m_bits h1 ! 2) 7
            then - (if m_type h = 22
                    then real_of_int (uint (m_bits h1 ! 2 AND 0x7F) * 256 + uint (m_bits h1 ! 3)) * 0.1
                    else real_of_int (uint (m_bits h1 ! 2)) + real_of_int (uint (m_bits h1 ! 3)) * 0.1)
            else (if m_type h = 22
                  then real_of_int (uint (m_bits h1 ! 2 AND 0x7F) * 256 + uint (m_bits h1 ! 3)) * 0.1
                  else real_of_int (uint (m_bits h1 ! 2)) + real_of_int (uint (m_bits h1 ! 3)) * 0.1))
           + m_tempOffset h"
    by (simp add: private_read_unfold[OF assms] Let_def apply_offsets_def decode_values_def f msb_bit)
  show "m_bits (fst (snd (private_read p h w))) = m_bits h1"
    by (simp add: private_read_unfold[OF assms] Let_def apply_offsets_fields decode_values_fields)
qed

lemma failed_values:
  assumes "private_readSensor p h w = (rv, h1, w1)" and "rv \<noteq> DHTLIB_OK"
  shows "m_humidity (fst (snd (private_read p h w))) =
           (if m_suppressError h then m_humidity h else DHTLIB_INVALID_VALUE p)"
    and "m_temperature (fst (snd (private_read p h w))) =
           (if m_suppressError h then m_temperature h else DHTLIB_INVALID_VALUE p)"
    and "m_bits (fst (snd (private_read p h w))) = m_bits h1"
proof -
  note r = private_readSensor_result[OF assms(1)]
  have f: "m_humidity h1 = m_humidity h" "m_temperature h1 = m_temperature h"
    by (subst r(2), simp)+
  show "m_humidity (fst (snd (private_read p h w))) =
           (if m_suppressError h then m_humidity h else DHTLIB_INVALID_VALUE p)"
    and "m_temperature (fst (snd (private_read p h w))) =
           (if m_suppressError h then m_temperature h else DHTLIB_INVALID_VALUE p)"
    and "m_bits (fst (snd (private_read p h w))) = m_bits h1"
    using assms(2) by (simp_all add: private_read_unfold[OF assms(1)] Let_def f)
qed

lemma read_unknown_variant:
  assumes "m_type h = 0"
    and "private_read p ((init_readDelay h)\<lparr>m_type := 22, m_wakeupDelay := DHTLIB_DHT_WAKEUP\<rparr>) w
           = (rv1, h1, w1)"
    and "private_read p (h1\<lparr>m_type := 11, m_wakeupDelay := DHTLIB_DHT11_WAKEUP\<rparr>) w1 = (rv2, h2, w2)"
  shows "read p h w =
      (if rv1 = DHTLIB_OK then Some (rv1, h1, w1)
       else if rv2 = DHTLIB_OK then Some (rv2, h2, w2) else Some (rv2, h2\<lparr>m_type := 0\<rparr>, w2))"
proof -
  have "m_type (init_readDelay h) = 0"
    using assms(1) by (simp add: init_readDelay_fields)
  then show ?thesis
    using assms(2,3) by (simp add: read_def Let_def)
qed

lemma digitalWrite_fields:
  "millis_clock (digitalWrite pin v w) = millis_clock w"
  "millis_calls (digitalWrite pin v w) = millis_calls w"
  "hw_log (digitalWrite pin v w) = hw_log w @ [DigitalWrite pin v]"
  by (simp_all add: digitalWrite_def emit_def)

subsection \<open>Running the simulated sensor\<close>

text \<open>
  On the simulated board every polling loop leaves at its first read, so one round of the
  bit loop is one rewrite step. The four readings below are evaluated once, for any object.
\<close>

lemma wait_while_exit:
  "line w (line_reads w) \<noteq> lv \<Longrightarrow>
   wait_while lv c w = (False, w\<lparr>line_reads := line_reads w + 1\<rparr>)"
  by (subst wait_while.simps) (simp add: digitalRead_def)

lemma read_bits_step:
  assumes "line w (line_reads w) = HIGH" and "line w (line_reads w + 1) = LOW"
  shows "read_bits (Suc i) p msk idx bs w =
     (let bs1 = (if micros_clock w (micros_calls w + 1) - micros_clock w (micros_calls w)
                     > DHTLIB_BIT_THRESHOLD p
                 then bs[idx := bs ! idx OR msk] else bs);
          w4 = w\<lparr>line_reads := line_reads w + 2, micros_calls := micros_calls w + 2\<rparr>
      in if drop_bit 1 msk = 0 then read_bits i p 0x80 (idx + 1) bs1 w4
         else read_bits i p (drop_bit 1 msk) idx bs1 w4)"
  using assms by (simp add: wait_while_exit micros_def Let_def)

lemma read_bits_step_numeral:
  assumes "line w (line_reads w) = HIGH" and "line w (line_reads w + 1) = LOW"
  shows "read_bits (numeral k) p msk idx bs w =
     (let bs1 = (if micros_clock w (micros_calls w + 1) - micros_clock w (micros_calls w)
                     > DHTLIB_BIT_THRESHOLD p
                 then bs[idx := bs ! idx OR msk] else bs);
          w4 = w\<lparr>line_reads := line_reads w + 2, micros_calls := micros_calls w + 2\<rparr>
      in if drop_bit 1 msk = 0 then read_bits (pred_numeral k) p 0x80 (idx + 1) bs1 w4
         else read_bits (pred_numeral k) p (drop_bit 1 msk) idx bs1 w4)"
  using read_bits_step[OF assms, of "pred_numeral k"] by (simp only: numeral_eq_Suc)

lemma replicate_5: "replicate 5 x = [x, x, x, x, x]"
  by (simp add: numeral_eq_Suc)

lemmas sensor_eval =
  private_readSensor_def read_bits_step_numeral read_bits_step wait_while_exit
  sensor_line_def sensor_micros_def uno_def Let_def
  yield_def pinMode_def digitalWrite_def delayMicroseconds_def noInterrupts_def emit_def

lemma sensor_reading_1:
  "private_readSensor uno h
     \<lparr>line = sensor_line, line_reads = 0, micros_clock = sensor_micros good_then_bad,
      micros_calls = 0, millis_clock = ms, millis_calls = k, hw_log = l\<rparr> =
   (DHTLIB_OK, h\<lparr>m_bits := [0x02, 0x5C, 0x80, 0x32, 0x10]\<rparr>,
     \<lparr>line = sensor_line, line_reads = 84, micros_clock = sensor_micros good_then_bad,
      micros_calls = 80, millis_clock = ms, millis_calls = k,
      hw_log = l @ [Yield, PinMode (m_dataPin h) OUTPUT, DigitalWrite (m_dataPin h) LOW,
            DelayMicroseconds (ucast (m_wakeupDelay h) * 1100),
            PinMode (m_dataPin h) INPUT_PULLUP, NoInterrupts]\<rparr>)"
  by (simp add: sensor_eval replicate_5 good_then_bad_def del: read_bits.simps(2))

lemma sensor_reading_2:
  "private_readSensor uno h
     \<lparr>line = sensor_line, line_reads = 84, micros_clock = sensor_micros good_then_bad,
      micros_calls = 80, millis_clock = ms, millis_calls = k, hw_log = l\<rparr> =
   (DHTLIB_OK, h\<lparr>m_bits := [0x02, 0x5C, 0x01, 0x04, 0x64]\<rparr>,
     \<lparr>line = sensor_line, line_reads = 168, micros_clock = sensor_micros good_then_bad,
      micros_calls = 160, millis_clock = ms, millis_calls = k,
      hw_log = l @ [Yield, PinMode (m_dataPin h) OUTPUT, DigitalWrite (m_dataPin h) LOW,
            DelayMicroseconds (ucast (m_wakeupDelay h) * 1100),
            PinMode (m_dataPin h) INPUT_PULLUP, NoInterrupts]\<rparr>)"
  by (simp add: sensor_eval replicate_5 good_then_bad_def del: read_bits.simps(2))

lemma shifted_reading_1:
  "private_readSensor uno h
     \<lparr>line = sensor_line, line_reads = 0, micros_clock = sensor_micros shifted_then_dht11,
      micros_calls = 0, millis_clock = ms, millis_calls = k, hw_log = l\<rparr> =
   (DHTLIB_ERROR_BIT_SHIFT, h\<lparr>m_bits := [0x82, 0x5C, 0x01, 0x04, 0xE3]\<rparr>,
     \<lparr>line = sensor_line, line_reads = 84, micros_clock = sensor_micros shifted_then_dht11,
      micros_calls = 80, millis_clock = ms, millis_calls = k,
      hw_log = l @ [Yield, PinMode (m_dataPin h) OUTPUT, DigitalWrite (m_dataPin h) LOW,
            DelayMicroseconds (ucast (m_wakeupDelay h) * 1100),
            PinMode (m_dataPin h) INPUT_PULLUP, NoInterrupts]\<rparr>)"
  by (simp add: sensor_eval replicate_5 shifted_then_dht11_def del: read_bits.simps(2))

lemma shifted_reading_2:
  "private_readSensor uno h
     \<lparr>line = sensor_line, line_reads = 84, micros_clock = sensor_micros shifted_then_dht11,
      micros_calls = 80, millis_clock = ms, millis_calls = k, hw_log = l\<rparr> =
   (DHTLIB_OK, h\<lparr>m_bits := [0x3C, 0x00, 0x19, 0x05, 0x5A]\<rparr>,
     \<lparr>line = sensor_line, line_reads = 168, micros_clock = sensor_micros shifted_then_dht11,
      micros_calls = 160, millis_clock = ms, millis_calls = k,
      hw_log = l @ [Yield, PinMode (m_dataPin h) OUTPUT, DigitalWrite (m_dataPin h) LOW,
            DelayMicroseconds (ucast (m_wakeupDelay h) * 1100),
            PinMode (m_dataPin h) INPUT_PULLUP, NoInterrupts]\<rparr>)"
  by (simp add: sensor_eval replicate_5 shifted_then_dht11_def del: read_bits.simps(2))

lemma sampled_dht22:
  "private_readSensor uno h ((sensor_world good_then_bad ms)\<lparr>millis_calls := k\<rparr>) =
     (DHTLIB_OK, h\<lparr>m_bits := [0x02, 0x5C, 0x80, 0x32, 0x10]\<rparr>,
      (sensor_world good_then_bad ms)
        \<lparr>millis_calls := k, line_reads := 84, micros_calls := 80,
          hw_log := [Yield, PinMode (m_dataPin h) OUTPUT, DigitalWrite (m_dataPin h) LOW,
                     DelayMicroseconds (ucast (m_wakeupDelay h) * 1100),
                     PinMode (m_dataPin h) INPUT_PULLUP, NoInterrupts]\<rparr>)"
  by (simp add: sensor_world_def sensor_reading_1)

lemma sampled_bad_checksum:
  "private_readSensor uno h
     ((sensor_world good_then_bad ms)\<lparr>millis_calls := k, line_reads := 84, micros_calls := 80, hw_log := l\<rparr>) =
     (DHTLIB_OK, h\<lparr>m_bits := [0x02, 0x5C, 0x01, 0x04, 0x64]\<rparr>,
      (sensor_world good_then_bad ms)
        \<lparr>millis_calls := k, line_reads := 168, micros_calls := 160,
          hw_log := l @ [Yield, PinMode (m_dataPin h) OUTPUT, DigitalWrite (m_dataPin h) LOW,
                     DelayMicroseconds (ucast (m_wakeupDelay h) * 1100),
                     PinMode (m_dataPin h) INPUT_PULLUP, NoInterrupts]\<rparr>)"
  by (simp add: sensor_world_def sensor_reading_2)

lemma sampled_shifted:
  "private_readSensor uno h ((sensor_world shifted_then_dht11 ms)\<lparr>millis_calls := k\<rparr>) =
     (DHTLIB_ERROR_BIT_SHIFT, h\<lparr>m_bits := [0x82, 0x5C, 0x01, 0x04, 0xE3]\<rparr>,
      (sensor_world shifted_then_dht11 ms)
        \<lparr>millis_calls := k, line_reads := 84, micros_calls := 80,
          hw_log := [Yield, PinMode (m_dataPin h) OUTPUT, DigitalWrite (m_dataPin h) LOW,
                     DelayMicroseconds (ucast (m_wakeupDelay h) * 1100),
                     PinMode (m_dataPin h) INPUT_PULLUP, NoInterrupts]\<rparr>)"
  by (simp add: sensor_world_def shifted_reading_1)


lemma sensor_world_millis: "millis_clock (sensor_world fs ms) = ms"
  by (simp add: sensor_world_def)

lemma dht22_sensor_init: "init_readDelay (dht22_sensor se) = dht22_sensor se"
  by (simp add: init_readDelay_def dht22_sensor_def)

lemma dht22_sensor_gate_open:
  "read_wait (dht22_sensor se) (sensor_world fs slow_clock) =
     Some (False, (sensor_world fs slow_clock)\<lparr>millis_calls := 1\<rparr>)"
  by (subst read_wait_elapsed)
     (simp_all add: dht22_sensor_def sensor_world_def slow_clock_def)

lemma fresh_detects_dht22:
  "read uno fresh_sensor (sensor_world good_then_bad slow_clock) =
     Some (DHTLIB_OK, detected_dht22, board_after_detection)"
proof -
  let ?hB = "(init_readDelay fresh_sensor)\<lparr>m_type := 22, m_wakeupDelay := DHTLIB_DHT_WAKEUP\<rparr>"
  have w: "sensor_world good_then_bad slow_clock =
      (sensor_world good_then_bad slow_clock)\<lparr>millis_calls := 0\<rparr>"
    by (simp add: sensor_world_def)
  have "private_read uno ?hB ((sensor_world good_then_bad slow_clock)\<lparr>millis_calls := 0\<rparr>) =
      (DHTLIB_OK, detected_dht22, board_after_detection)"
    by (simp add: private_read_unfold[OF sampled_dht22] Let_def)
       (simp add: test_checksum_def decode_values_def apply_offsets_def constrain_def Let_def
          init_readDelay_def fresh_sensor_def detected_dht22_def board_after_detection_def
          sensor_world_def slow_clock_def DHTLIB_DHT_WAKEUP_def DHTLIB_DHT22_READ_DELAY_def)
  then have "private_read uno ?hB (sensor_world good_then_bad slow_clock) =
      (DHTLIB_OK, detected_dht22, board_after_detection)"
    using w by simp
  moreover have "m_type (init_readDelay fresh_sensor) = 0"
    by (simp add: init_readDelay_fields fresh_sensor_def)
  ultimately show ?thesis
    by (simp add: read_def Let_def)
qed

lemma detected_dht22_gate_open:
  "read_wait detected_dht22 board_after_detection =
     Some (False, board_after_detection\<lparr>millis_calls := 2\<rparr>)"
  by (subst read_wait_elapsed)
     (simp_all add: detected_dht22_def board_after_detection_def slow_clock_def)

lemma board_after_detection_eq:
  "board_after_detection\<lparr>millis_calls := 2\<rparr> =
     (sensor_world good_then_bad slow_clock)
       \<lparr>millis_calls := 2, line_reads := 84, micros_calls := 80,
         hw_log := [Yield, PinMode 6 OUTPUT, DigitalWrite 6 LOW, DelayMicroseconds 1100,
                PinMode 6 INPUT_PULLUP, NoInterrupts, Interrupts, PinMode 6 OUTPUT,
                DigitalWrite 6 HIGH]\<rparr>"
  by (simp add: board_after_detection_def sensor_world_def)

lemma detected_dht22_second_read:
  "read uno detected_dht22 board_after_detection =
     Some (private_read uno detected_dht22 (board_after_detection\<lparr>millis_calls := 2\<rparr>))"
  "fst (private_read uno detected_dht22 (board_after_detection\<lparr>millis_calls := 2\<rparr>)) =
     DHTLIB_ERROR_CHECKSUM"
proof -
  have i: "init_readDelay detected_dht22 = detected_dht22" and t: "m_type detected_dht22 \<noteq> 0"
    by (simp_all add: init_readDelay_def detected_dht22_def)
  show "read uno detected_dht22 board_after_detection =
     Some (private_read uno detected_dht22 (board_after_detection\<lparr>millis_calls := 2\<rparr>))"
    using read_known_variant[OF t, of board_after_detection _ uno] detected_dht22_gate_open
    by (simp add: i)
  show "fst (private_read uno detected_dht22 (board_after_detection\<lparr>millis_calls := 2\<rparr>)) =
     DHTLIB_ERROR_CHECKSUM"
    unfolding board_after_detection_eq
    by (simp add: private_read_unfold[OF sampled_bad_checksum] Let_def test_checksum_def)
qed

lemma fresh_detects_dht11:
  "\<exists>h' w'. read uno fresh_sensor (sensor_world shifted_then_dht11 slow_clock) =
             Some (DHTLIB_OK, h', w') \<and>
           m_type h' = 11 \<and> m_readDelay h' = 2000 \<and> m_humidity h' = 60 \<and>
           m_temperature h' = 25.5"
proof -
  let ?hB = "(init_readDelay fresh_sensor)\<lparr>m_type := 22, m_wakeupDelay := DHTLIB_DHT_WAKEUP\<rparr>"
  let ?h1 = "?hB\<lparr>m_bits := [0x82, 0x5C, 0x01, 0x04, 0xE3], m_lastRead := 5000,
                  m_humidity := - 999, m_temperature := - 999\<rparr>"
  let ?w1 = "\<lparr>line = sensor_line, line_reads = 84,
      micros_clock = sensor_micros shifted_then_dht11, micros_calls = 80,
      millis_clock = slow_clock, millis_calls = 1,
      hw_log = [Yield, PinMode 6 OUTPUT, DigitalWrite 6 LOW, DelayMicroseconds 1100,
                PinMode 6 INPUT_PULLUP, NoInterrupts, Interrupts, PinMode 6 OUTPUT,
                DigitalWrite 6 HIGH]\<rparr>"
  let ?hA = "?h1\<lparr>m_type := 11, m_wakeupDelay := DHTLIB_DHT11_WAKEUP\<rparr>"
  have w: "sensor_world shifted_then_dht11 slow_clock =
      (sensor_world shifted_then_dht11 slow_clock)\<lparr>millis_calls := 0\<rparr>"
    by (simp add: sensor_world_def)
  have "private_read uno ?hB ((sensor_world shifted_then_dht11 slow_clock)\<lparr>millis_calls := 0\<rparr>) =
      (DHTLIB_ERROR_BIT_SHIFT, ?h1, ?w1)"
    by (simp add: private_read_unfold[OF sampled_shifted] Let_def)
       (simp add: init_readDelay_def fresh_sensor_def sensor_world_def slow_clock_def uno_def
          DHTLIB_DHT_WAKEUP_def)
  then have pr1: "private_read uno ?hB (sensor_world shifted_then_dht11 slow_clock) =
      (DHTLIB_ERROR_BIT_SHIFT, ?h1, ?w1)"
    using w by simp
  obtain rv2 h2 w2 where pr2: "private_read uno ?hA ?w1 = (rv2, h2, w2)"
    by (cases "private_read uno ?hA ?w1") auto
  have v: "rv2 = DHTLIB_OK" "m_humidity h2 = 60" "m_temperature h2 = 25.5"
    using pr2
    by (simp_all add: private_read_unfold[OF shifted_reading_2] Let_def test_checksum_def
        decode_values_def apply_offsets_def constrain_def)
       (auto simp: init_readDelay_def fresh_sensor_def)
  have f: "m_type h2 = 11" "m_readDelay h2 = 2000"
    using private_read_fields(1,4)[OF pr2]
    by (simp_all add: init_readDelay_def fresh_sensor_def DHTLIB_DHT22_READ_DELAY_def)
  have "m_type (init_readDelay fresh_sensor) = 0"
    by (simp add: init_readDelay_fields fresh_sensor_def)
  then have "read uno fresh_sensor (sensor_world shifted_then_dht11 slow_clock) =
      Some (DHTLIB_OK, h2, w2)"
    using pr1 pr2 v(1) by (simp add: read_def Let_def)
  with v f show ?thesis
    by blast
qed




lemma powerUp_fresh_run:
  "read uno fresh_sensor (digitalWrite 6 HIGH (sensor_world good_then_bad slow_clock)) =
     Some (DHTLIB_OK, detected_dht22,
           board_after_detection\<lparr>hw_log := DigitalWrite 6 HIGH # hw_log board_after_detection\<rparr>)"
proof -
  let ?hB = "(init_readDelay fresh_sensor)\<lparr>m_type := 22, m_wakeupDelay := DHTLIB_DHT_WAKEUP\<rparr>"
  have W: "digitalWrite 6 HIGH (sensor_world good_then_bad slow_clock) =
      \<lparr>line = sensor_line, line_reads = 0, micros_clock = sensor_micros good_then_bad,
       micros_calls = 0, millis_clock = slow_clock, millis_calls = 0,
       hw_log = [DigitalWrite 6 HIGH]\<rparr>"
    by (simp add: digitalWrite_def emit_def sensor_world_def)
  have "private_read uno ?hB (digitalWrite 6 HIGH (sensor_world good_then_bad slow_clock)) =
      (DHTLIB_OK, detected_dht22,
       board_after_detection\<lparr>hw_log := DigitalWrite 6 HIGH # hw_log board_after_detection\<rparr>)"
    unfolding W
    by (simp add: private_read_unfold[OF sensor_reading_1] Let_def)
       (simp add: test_checksum_def decode_values_def apply_offsets_def constrain_def Let_def
          init_readDelay_def fresh_sensor_def detected_dht22_def board_after_detection_def
          slow_clock_def DHTLIB_DHT_WAKEUP_def DHTLIB_DHT22_READ_DELAY_def)
  moreover have "m_type (init_readDelay fresh_sensor) = 0"
    by (simp add: init_readDelay_fields fresh_sensor_def)
  ultimately show ?thesis
    by (simp add: read_def Let_def)
qed

lemma powerUp_shifted_run:
  "private_readSensor uno (dht22_sensor False)
     ((digitalWrite 6 HIGH (sensor_world shifted_then_dht11 slow_clock))\<lparr>millis_calls := 1\<rparr>) =
   (DHTLIB_ERROR_BIT_SHIFT, (dht22_sensor False)\<lparr>m_bits := [0x82, 0x5C, 0x01, 0x04, 0xE3]\<rparr>,
    \<lparr>line = sensor_line, line_reads = 84, micros_clock = sensor_micros shifted_then_dht11,
      micros_calls = 80, millis_clock = slow_clock, millis_calls = 1,
      hw_log = [DigitalWrite 6 HIGH, Yield, PinMode 6 OUTPUT, DigitalWrite 6 LOW,
                DelayMicroseconds 1100, PinMode 6 INPUT_PULLUP, NoInterrupts]\<rparr>)"
proof -
  have W: "(digitalWrite 6 HIGH (sensor_world shifted_then_dht11 slow_clock))\<lparr>millis_calls := 1\<rparr> =
      \<lparr>line = sensor_line, line_reads = 0, micros_clock = sensor_micros shifted_then_dht11,
       micros_calls = 0, millis_clock = slow_clock, millis_calls = 1,
       hw_log = [DigitalWrite 6 HIGH]\<rparr>"
    by (simp add: digitalWrite_def emit_def sensor_world_def)
  have pin: "m_dataPin (dht22_sensor False) = 6"
    "ucast (m_wakeupDelay (dht22_sensor False)) * 1100 = (1100 :: u32)"
    by (simp_all add: dht22_sensor_def)
  show ?thesis
    unfolding W by (simp add: shifted_reading_1 pin)
qed

section \<open>The claims\<close>




text \<open>
  Claim C2. A call of \<^verbatim>\<open>read\<close> on an object of type 0 always returns. It makes a first
  reading attempt with type 22 and the wake-up delay 1; if that attempt returns
  \<open>DHTLIB_OK\<close>, so does the call, the type stays 22 and the board has seen one attempt.
  Otherwise it makes exactly one more attempt, with type 11 and the wake-up delay 18; if
  that one returns \<open>DHTLIB_OK\<close>, so does the call and the type stays 11; if not, the
  call returns the status of the second attempt and the type is 0 again. A call on an
  object whose type is set makes no attempt when the gate answers for it, and otherwise
  exactly one, with the type and the wake-up delay the object has; both are left as they
  are.
\<close>

theorem type_detection:
  assumes "m_type h = 0"
  shows "(case private_read p ((init_readDelay h)\<lparr>m_type := 22, m_wakeupDelay := DHTLIB_DHT_WAKEUP\<rparr>) w of
            (rv1, h1, w1) \<Rightarrow>
          case private_read p (h1\<lparr>m_type := 11, m_wakeupDelay := DHTLIB_DHT11_WAKEUP\<rparr>) w1 of
            (rv2, h2, w2) \<Rightarrow>
              (rv1 = DHTLIB_OK \<longrightarrow>
                 read p h w = Some (DHTLIB_OK, h1, w1) \<and> m_type h1 = 22 \<and> m_wakeupDelay h1 = 1 \<and>
                 hw_log w1 = hw_log w @ attempt_log (m_dataPin h) 1) \<and>
              (rv1 \<noteq> DHTLIB_OK \<longrightarrow>
                 hw_log w2 = hw_log w @ attempt_log (m_dataPin h) 1 @ attempt_log (m_dataPin h) 18 \<and>
                 (rv2 = DHTLIB_OK \<longrightarrow>
                    read p h w = Some (DHTLIB_OK, h2, w2) \<and> m_type h2 = 11 \<and> m_wakeupDelay h2 = 18) \<and>
                 (rv2 \<noteq> DHTLIB_OK \<longrightarrow>
                    read p h w = Some (rv2, h2\<lparr>m_type := 0\<rparr>, w2)))) \<and>
         (\<forall>h' w' w1. m_type h' \<noteq> 0 \<longrightarrow>
            (read_wait (init_readDelay h') w' = None \<longrightarrow> read p h' w' = None) \<and>
            (read_wait (init_readDelay h') w' = Some (True, w1) \<longrightarrow>
               read p h' w' = Some (DHTLIB_OK, init_readDelay h', w1) \<and>
               m_type (init_readDelay h') = m_type h' \<and>
               m_wakeupDelay (init_readDelay h') = m_wakeupDelay h') \<and>
            (read_wait (init_readDelay h') w' = Some (False, w1) \<longrightarrow>
               read p h' w' = Some (private_read p (init_readDelay h') w1) \<and>
               m_type (fst (snd (private_read p (init_readDelay h') w1))) = m_type h' \<and>
               m_wakeupDelay (fst (snd (private_read p (init_readDelay h') w1))) = m_wakeupDelay h' \<and>
               hw_log (snd (snd (private_read p (init_readDelay h') w1))) =
                 hw_log w1 @ attempt_log (m_dataPin h') (m_wakeupDelay h')))"
proof -
  define hB where "hB = (init_readDelay h)\<lparr>m_type := 22, m_wakeupDelay := DHTLIB_DHT_WAKEUP\<rparr>"
  obtain rv1 h1 w1 where a: "private_read p hB w = (rv1, h1, w1)"
    by (cases "private_read p hB w") auto
  define hA where "hA = h1\<lparr>m_type := 11, m_wakeupDelay := DHTLIB_DHT11_WAKEUP\<rparr>"
  obtain rv2 h2 w2 where b: "private_read p hA w1 = (rv2, h2, w2)"
    by (cases "private_read p hA w1") auto
  note fa = private_read_fields[OF a]
  note fb = private_read_fields[OF b]
  have t0: "m_type (init_readDelay h) = 0"
    using assms by (simp add: init_readDelay_fields)
  have rd: "read p h w =
      (if rv1 = DHTLIB_OK then Some (rv1, h1, w1)
       else if rv2 = DHTLIB_OK then Some (rv2, h2, w2) else Some (rv2, h2\<lparr>m_type := 0\<rparr>, w2))"
    using a b by (simp add: read_def Let_def t0 hB_def[symmetric] hA_def[symmetric])
  have first: "m_type h1 = 22" "m_wakeupDelay h1 = 1" "m_dataPin h1 = m_dataPin h"
    "hw_log w1 = hw_log w @ attempt_log (m_dataPin h) 1"
    using fa by (simp_all add: hB_def DHTLIB_DHT_WAKEUP_def init_readDelay_fields)
  have second: "m_type h2 = 11" "m_wakeupDelay h2 = 18"
    "hw_log w2 = hw_log w @ attempt_log (m_dataPin h) 1 @ attempt_log (m_dataPin h) 18"
    using fb first by (simp_all add: hA_def DHTLIB_DHT11_WAKEUP_def)
  have part1: "(case private_read p hB w of
            (rv1, h1, w1) \<Rightarrow>
          case private_read p (h1\<lparr>m_type := 11, m_wakeupDelay := DHTLIB_DHT11_WAKEUP\<rparr>) w1 of
            (rv2, h2, w2) \<Rightarrow>
              (rv1 = DHTLIB_OK \<longrightarrow>
                 read p h w = Some (DHTLIB_OK, h1, w1) \<and> m_type h1 = 22 \<and> m_wakeupDelay h1 = 1 \<and>
                 hw_log w1 = hw_log w @ attempt_log (m_dataPin h) 1) \<and>
              (rv1 \<noteq> DHTLIB_OK \<longrightarrow>
                 hw_log w2 = hw_log w @ attempt_log (m_dataPin h) 1 @ attempt_log (m_dataPin h) 18 \<and>
                 (rv2 = DHTLIB_OK \<longrightarrow>
                    read p h w = Some (DHTLIB_OK, h2, w2) \<and> m_type h2 = 11 \<and> m_wakeupDelay h2 = 18) \<and>
                 (rv2 \<noteq> DHTLIB_OK \<longrightarrow>
                    read p h w = Some (rv2, h2\<lparr>m_type := 0\<rparr>, w2))))"
    using first second by (simp add: a hA_def[symmetric] b rd)
  have part2: "(read_wait (init_readDelay h') w' = None \<longrightarrow> read p h' w' = None) \<and>
            (read_wait (init_readDelay h') w' = Some (True, wg) \<longrightarrow>
               read p h' w' = Some (DHTLIB_OK, init_readDelay h', wg) \<and>
               m_type (init_readDelay h') = m_type h' \<and>
               m_wakeupDelay (init_readDelay h') = m_wakeupDelay h') \<and>
            (read_wait (init_readDelay h') w' = Some (False, wg) \<longrightarrow>
               read p h' w' = Some (private_read p (init_readDelay h') wg) \<and>
               m_type (fst (snd (private_read p (init_readDelay h') wg))) = m_type h' \<and>
               m_wakeupDelay (fst (snd (private_read p (init_readDelay h') wg))) = m_wakeupDelay h' \<and>
               hw_log (snd (snd (private_read p (init_readDelay h') wg))) =
                 hw_log wg @ attempt_log (m_dataPin h') (m_wakeupDelay h'))"
    if k: "m_type h' \<noteq> 0" for h' w' wg
  proof -
    obtain rv3 h3 w3 where c: "private_read p (init_readDelay h') wg = (rv3, h3, w3)"
      by (cases "private_read p (init_readDelay h') wg") auto
    note fc = private_read_fields[OF c]
    from k fc show ?thesis
      by (simp add: read_def Let_def init_readDelay_fields c)
  qed
  from part1 part2 show ?thesis
    unfolding hB_def by blast
qed

text \<open>
  The simulated sensor answers the first attempt with a shifted frame and the second with
  the frame of a DHT11; a later read of the detected DHT22 makes one attempt with the
  DHT22 pulse.
\<close>

theorem type_detection_witness:
  "m_type fresh_sensor = 0 \<and>
   map_option fst (read uno fresh_sensor (sensor_world shifted_then_dht11 slow_clock)) =
     Some DHTLIB_OK \<and>
   map_option (m_type \<circ> fst \<circ> snd)
     (read uno fresh_sensor (sensor_world shifted_then_dht11 slow_clock)) = Some 11 \<and>
   map_option (m_wakeupDelay \<circ> fst \<circ> snd)
     (read uno fresh_sensor (sensor_world shifted_then_dht11 slow_clock)) = Some 18 \<and>
   map_option (hw_log \<circ> snd \<circ> snd)
     (read uno fresh_sensor (sensor_world shifted_then_dht11 slow_clock)) =
     Some (attempt_log 6 1 @ attempt_log 6 18) \<and>
   m_type detected_dht22 \<noteq> 0 \<and>
   read_wait (init_readDelay detected_dht22) board_after_detection =
     Some (False, board_after_detection\<lparr>millis_calls := 2\<rparr>) \<and>
   read uno detected_dht22 board_after_detection =
     Some (private_read uno (init_readDelay detected_dht22)
             (board_after_detection\<lparr>millis_calls := 2\<rparr>)) \<and>
   m_type (fst (snd (private_read uno (init_readDelay detected_dht22)
             (board_after_detection\<lparr>millis_calls := 2\<rparr>)))) = 22 \<and>
   m_wakeupDelay (fst (snd (private_read uno (init_readDelay detected_dht22)
             (board_after_detection\<lparr>millis_calls := 2\<rparr>)))) = 1 \<and>
   hw_log (snd (snd (private_read uno (init_readDelay detected_dht22)
             (board_after_detection\<lparr>millis_calls := 2\<rparr>)))) =
     hw_log board_after_detection @ attempt_log 6 1"
proof -
  let ?W = "sensor_world shifted_then_dht11 slow_clock"
  have f: "m_type fresh_sensor = 0" "m_dataPin fresh_sensor = 6" "hw_log ?W = []"
    by (simp_all add: fresh_sensor_def sensor_world_def)
  have d: "m_type detected_dht22 \<noteq> 0" "init_readDelay detected_dht22 = detected_dht22"
    "m_type detected_dht22 = 22" "m_wakeupDelay detected_dht22 = 1" "m_dataPin detected_dht22 = 6"
    by (simp_all add: init_readDelay_def detected_dht22_def)
  note T = type_detection[OF f(1), of uno ?W]
  from fresh_detects_dht11 obtain h' w' where
    r: "read uno fresh_sensor ?W = Some (DHTLIB_OK, h', w')" and t: "m_type h' = 11"
    by blast
  obtain rv1 h1 w1 where p1: "private_read uno
      ((init_readDelay fresh_sensor)\<lparr>m_type := 22, m_wakeupDelay := DHTLIB_DHT_WAKEUP\<rparr>) ?W
      = (rv1, h1, w1)"
    using prod_cases3 by blast
  obtain rv2 h2 w2 where p2: "private_read uno
      (h1\<lparr>m_type := 11, m_wakeupDelay := DHTLIB_DHT11_WAKEUP\<rparr>) w1 = (rv2, h2, w2)"
    using prod_cases3 by blast
  from T[THEN conjunct1] have T1:
    "(rv1 = DHTLIB_OK \<longrightarrow>
        read uno fresh_sensor ?W = Some (DHTLIB_OK, h1, w1) \<and> m_type h1 = 22) \<and>
     (rv1 \<noteq> DHTLIB_OK \<longrightarrow>
        hw_log w2 = attempt_log 6 1 @ attempt_log 6 18 \<and>
        (rv2 = DHTLIB_OK \<longrightarrow>
           read uno fresh_sensor ?W = Some (DHTLIB_OK, h2, w2) \<and> m_wakeupDelay h2 = 18) \<and>
        (rv2 \<noteq> DHTLIB_OK \<longrightarrow> read uno fresh_sensor ?W = Some (rv2, h2\<lparr>m_type := 0\<rparr>, w2)))"
    by (simp add: p1 p2 f)
  from T1 r t have 1: "m_wakeupDelay h' = 18 \<and> hw_log w' = attempt_log 6 1 @ attempt_log 6 18"
    by (cases "rv1 = DHTLIB_OK"; cases "rv2 = DHTLIB_OK") auto
  have g: "read_wait (init_readDelay detected_dht22) board_after_detection =
      Some (False, board_after_detection\<lparr>millis_calls := 2\<rparr>)"
    using detected_dht22_gate_open by (simp add: d(2))
  note T2 = T[THEN conjunct2, rule_format, OF d(1),
      of board_after_detection "board_after_detection\<lparr>millis_calls := 2\<rparr>",
      THEN conjunct2, THEN conjunct2, rule_format, OF g]
  from T2 have 2: "read uno detected_dht22 board_after_detection =
     Some (private_read uno detected_dht22 (board_after_detection\<lparr>millis_calls := 2\<rparr>)) \<and>
   m_type (fst (snd (private_read uno detected_dht22
             (board_after_detection\<lparr>millis_calls := 2\<rparr>)))) = 22 \<and>
   m_wakeupDelay (fst (snd (private_read uno detected_dht22
             (board_after_detection\<lparr>millis_calls := 2\<rparr>)))) = 1 \<and>
   hw_log (snd (snd (private_read uno detected_dht22
             (board_after_detection\<lparr>millis_calls := 2\<rparr>)))) =
     hw_log board_after_detection @ attempt_log 6 1"
    by (simp add: d)
  from 1 2 r t f(1) d(1) detected_dht22_gate_open show ?thesis
    by (simp add: d(2))
qed

text \<open>
  Claim C3, as stated, fails: a failed reading does not reset a type that has been
  determined. The fresh object detects a DHT22 at its first read; its second read fails
  with a checksum error, and the type is still 22, not 0.
\<close>

theorem determined_variant_not_reset:
  "read uno fresh_sensor (sensor_world good_then_bad slow_clock) =
     Some (DHTLIB_OK, detected_dht22, board_after_detection) \<and>
   m_type detected_dht22 = 22 \<and>
   map_option fst (read uno detected_dht22 board_after_detection) = Some DHTLIB_ERROR_CHECKSUM \<and>
   map_option (m_type \<circ> fst \<circ> snd) (read uno detected_dht22 board_after_detection) = Some 22 \<and>
   map_option (m_type \<circ> fst \<circ> snd) (read uno detected_dht22 board_after_detection) \<noteq> Some 0"
proof -
  obtain rv h1 w1 where
    r: "private_read uno detected_dht22 (board_after_detection\<lparr>millis_calls := 2\<rparr>) = (rv, h1, w1)"
    by (cases "private_read uno detected_dht22 (board_after_detection\<lparr>millis_calls := 2\<rparr>)") auto
  have t: "m_type detected_dht22 = 22"
    by (simp add: detected_dht22_def)
  from private_read_fields(1)[OF r] t have "m_type h1 = 22"
    by simp
  with r detected_dht22_second_read fresh_detects_dht22 t show ?thesis
    by simp
qed

text \<open>
  Claim C3, amended. A call of \<^verbatim>\<open>read\<close> on an object of type 0 leaves the type 0 exactly
  when the call fails, and sets it to 22 or 11 otherwise. A call on an object whose type is
  set leaves the type as it is, whether the reading succeeds or fails. Hence, under every
  sequence of calls, a type that is set never changes, and a type that starts at 0 is only
  ever 0, 11 or 22.
\<close>

theorem variant_set_once:
  "(\<forall>w rv h1 w1. read p h w = Some (rv, h1, w1) \<longrightarrow>
      (m_type h \<noteq> 0 \<longrightarrow> m_type h1 = m_type h) \<and>
      (m_type h = 0 \<longrightarrow> (rv = DHTLIB_OK \<and> (m_type h1 = 22 \<or> m_type h1 = 11)) \<or>
                         (rv \<noteq> DHTLIB_OK \<and> m_type h1 = 0))) \<and>
   (\<forall>ws h'. read_seq p h ws = Some h' \<longrightarrow>
      (m_type h \<noteq> 0 \<longrightarrow> m_type h' = m_type h) \<and>
      (m_type h = 0 \<longrightarrow> m_type h' = 0 \<or> m_type h' = 11 \<or> m_type h' = 22))"
proof -
  have seq: "read_seq p h ws = Some h' \<Longrightarrow>
      (m_type h \<noteq> 0 \<longrightarrow> m_type h' = m_type h) \<and>
      (m_type h = 0 \<longrightarrow> m_type h' = 0 \<or> m_type h' = 11 \<or> m_type h' = 22)" for ws h h'
  proof (induction ws arbitrary: h)
    case Nil
    then show ?case by simp
  next
    case (Cons w ws)
    from Cons.prems obtain rv h1 w1 where r: "read p h w = Some (rv, h1, w1)"
      and s: "read_seq p h1 ws = Some h'"
      by (auto split: option.splits)
    from read_type_step[OF r] Cons.IH[OF s] show ?case
      by auto
  qed
  from seq read_type_step show ?thesis
    by blast
qed

text \<open>
  The two reads of the counterexample, as a sequence.
\<close>

theorem variant_set_once_witness:
  "read uno detected_dht22 board_after_detection =
     Some (private_read uno detected_dht22 (board_after_detection\<lparr>millis_calls := 2\<rparr>)) \<and>
   m_type detected_dht22 \<noteq> 0 \<and>
   fst (private_read uno detected_dht22 (board_after_detection\<lparr>millis_calls := 2\<rparr>)) \<noteq> DHTLIB_OK \<and>
   m_type (fst (snd (private_read uno detected_dht22 (board_after_detection\<lparr>millis_calls := 2\<rparr>))))
     = m_type detected_dht22 \<and>
   m_type fresh_sensor = 0 \<and>
   read_seq uno fresh_sensor [sensor_world good_then_bad slow_clock, board_after_detection] =
     Some (fst (snd (private_read uno detected_dht22 (board_after_detection\<lparr>millis_calls := 2\<rparr>)))) \<and>
   (m_type (fst (snd (private_read uno detected_dht22 (board_after_detection\<lparr>millis_calls := 2\<rparr>)))) = 0 \<or>
    m_type (fst (snd (private_read uno detected_dht22 (board_after_detection\<lparr>millis_calls := 2\<rparr>)))) = 11 \<or>
    m_type (fst (snd (private_read uno detected_dht22 (board_after_detection\<lparr>millis_calls := 2\<rparr>)))) = 22)"
proof -
  let ?r = "private_read uno detected_dht22 (board_after_detection\<lparr>millis_calls := 2\<rparr>)"
  have rd: "read uno detected_dht22 board_after_detection = Some (fst ?r, fst (snd ?r), snd (snd ?r))"
    using detected_dht22_second_read(1) by simp
  have t: "m_type detected_dht22 \<noteq> 0" and f: "m_type fresh_sensor = 0"
    by (simp_all add: detected_dht22_def fresh_sensor_def)
  have seq: "read_seq uno fresh_sensor [sensor_world good_then_bad slow_clock, board_after_detection]
      = Some (fst (snd ?r))"
    by (simp add: fresh_detects_dht22 detected_dht22_second_read(1) split: prod.splits)
  from variant_set_once[of uno detected_dht22] rd t
  have 1: "m_type (fst (snd ?r)) = m_type detected_dht22"
    by blast
  from variant_set_once[of uno fresh_sensor] seq f
  have 2: "m_type (fst (snd ?r)) = 0 \<or> m_type (fst (snd ?r)) = 11 \<or> m_type (fst (snd ?r)) = 22"
    by blast
  from 1 2 seq t f detected_dht22_second_read show ?thesis
    by simp
qed

text \<open>
  Claim C4. After a successful transport the values are computed by the formulas of the
  sensor type, before the offsets: for type 22, humidity \<open>(byte0 * 256 + byte1) * 0.1\<close> and
  temperature \<open>((byte2 AND 0x7F) * 256 + byte3) * 0.1\<close>; for type 11, humidity
  \<open>byte0 + byte1 * 0.1\<close> and temperature \<open>byte2 + byte3 * 0.1\<close>; for both, the
  temperature is negated when bit 7 of byte 2 is set. With type 22, byte 2 = 0x80 and
  byte 3 = 0x32 the temperature is -5.0 before the offset.
\<close>

theorem interpretation_formulas:
  assumes "private_readSensor p h w = (DHTLIB_OK, h1, w1)"
  shows "fst (snd (private_read p h w)) =
           apply_offsets (decode_values (h1\<lparr>m_lastRead := millis_clock w (millis_calls w)\<rparr>)) \<and>
         (m_type h = 22 \<longrightarrow>
            m_humidity (decode_values (h1\<lparr>m_lastRead := millis_clock w (millis_calls w)\<rparr>)) =
              real_of_int (uint (m_bits h1 ! 0) * 256 + uint (m_bits h1 ! 1)) * 0.1 \<and>
            m_temperature (decode_values (h1\<lparr>m_lastRead := millis_clock w (millis_calls w)\<rparr>)) =
              (if bit (m_bits h1 ! 2) 7
               then - (real_of_int (uint (m_bits h1 ! 2 AND 0x7F) * 256 + uint (m_bits h1 ! 3)) * 0.1)
               else real_of_int (uint (m_bits h1 ! 2 AND 0x7F) * 256 + uint (m_bits h1 ! 3)) * 0.1)) \<and>
         (m_type h = 11 \<longrightarrow>
            m_humidity (decode_values (h1\<lparr>m_lastRead := millis_clock w (millis_calls w)\<rparr>)) =
              real_of_int (uint (m_bits h1 ! 0)) + real_of_int (uint (m_bits h1 ! 1)) * 0.1 \<and>
            m_temperature (decode_values (h1\<lparr>m_lastRead := millis_clock w (millis_calls w)\<rparr>)) =
              (if bit (m_bits h1 ! 2) 7
               then - (real_of_int (uint (m_bits h1 ! 2)) + real_of_int (uint (m_bits h1 ! 3)) * 0.1)
               else real_of_int (uint (m_bits h1 ! 2)) + real_of_int (uint (m_bits h1 ! 3)) * 0.1)) \<and>
         (m_type h = 22 \<and> m_bits h1 ! 2 = 0x80 \<and> m_bits h1 ! 3 = 0x32 \<longrightarrow>
            m_temperature (decode_values (h1\<lparr>m_lastRead := millis_clock w (millis_calls w)\<rparr>)) = - 5)"
proof -
  note r = private_readSensor_result[OF assms]
  have t: "m_type h1 = m_type h"
    by (subst r(2), simp)
  show ?thesis
    by (auto simp: private_read_unfold[OF assms] Let_def decode_values_def t msb_bit)
qed

text \<open>
  The first frame of the simulated DHT22: 60.4 percent and -5.0 degrees.
\<close>

theorem interpretation_formulas_witness:
  "private_readSensor uno (dht22_sensor False)
      ((sensor_world good_then_bad slow_clock)\<lparr>millis_calls := 0\<rparr>) =
     (DHTLIB_OK, (dht22_sensor False)\<lparr>m_bits := [0x02, 0x5C, 0x80, 0x32, 0x10]\<rparr>,
      (sensor_world good_then_bad slow_clock)
        \<lparr>millis_calls := 0, line_reads := 84, micros_calls := 80,
          hw_log := [Yield, PinMode 6 OUTPUT, DigitalWrite 6 LOW, DelayMicroseconds 1100,
                     PinMode 6 INPUT_PULLUP, NoInterrupts]\<rparr>) \<and>
   m_type (dht22_sensor False) = 22 \<and>
   m_humidity (decode_values ((dht22_sensor False)
      \<lparr>m_bits := [0x02, 0x5C, 0x80, 0x32, 0x10], m_lastRead := 5000\<rparr>)) = 60.4 \<and>
   m_temperature (decode_values ((dht22_sensor False)
      \<lparr>m_bits := [0x02, 0x5C, 0x80, 0x32, 0x10], m_lastRead := 5000\<rparr>)) = - 5 \<and>
   fst (snd (private_read uno (dht22_sensor False)
      ((sensor_world good_then_bad slow_clock)\<lparr>millis_calls := 0\<rparr>))) =
     apply_offsets (decode_values ((dht22_sensor False)
      \<lparr>m_bits := [0x02, 0x5C, 0x80, 0x32, 0x10], m_lastRead := 5000\<rparr>))"
proof -
  let ?h = "dht22_sensor False"
  let ?w = "(sensor_world good_then_bad slow_clock)\<lparr>millis_calls := 0\<rparr>"
  have pin: "m_dataPin ?h = 6" "ucast (m_wakeupDelay ?h) * 1100 = (1100 :: u32)"
    and t: "m_type ?h = 22"
    by (simp_all add: dht22_sensor_def)
  note now = sensor_world_millis slow_clock_def
  note a = interpretation_formulas[OF sampled_dht22[where h="?h" and ms=slow_clock and k=0]]
  have 1: "m_humidity (decode_values (?h\<lparr>m_bits := [0x02, 0x5C, 0x80, 0x32, 0x10],
      m_lastRead := 5000\<rparr>)) = 60.4"
    using a t by (simp add: now)
  have 2: "m_temperature (decode_values (?h\<lparr>m_bits := [0x02, 0x5C, 0x80, 0x32, 0x10],
      m_lastRead := 5000\<rparr>)) = - 5"
    using a t by (simp add: now)
  have 3: "fst (snd (private_read uno ?h ?w)) =
     apply_offsets (decode_values (?h\<lparr>m_bits := [0x02, 0x5C, 0x80, 0x32, 0x10],
      m_lastRead := 5000\<rparr>))"
    using a by (simp add: now)
  from 1 2 3 t sampled_dht22[where h="?h" and ms=slow_clock and k=0] show ?thesis
    by (simp add: pin)
qed



text \<open>
  Claim C6. When the type is set, \<^verbatim>\<open>_waitForRead\<close> is false and less than the read delay
  has passed since \<^verbatim>\<open>_lastRead\<close>, \<^verbatim>\<open>read\<close> returns \<open>DHTLIB_OK\<close> at once. Humidity,
  temperature, \<^verbatim>\<open>_lastRead\<close> and the buffer are unchanged (only \<^verbatim>\<open>_readDelay\<close> may have
  been initialised), and the board is unchanged but for the one call of \<^verbatim>\<open>millis\<close>: no
  event is logged, no line sample and no microsecond reading is consumed.
\<close>

theorem gate_returns_cached_values:
  assumes "m_type h \<noteq> 0" and "\<not> m_waitForRead h"
    and "millis_clock w (millis_calls w) - m_lastRead h < ucast (m_readDelay (init_readDelay h))"
  shows "read p h w = Some (DHTLIB_OK, init_readDelay h, w\<lparr>millis_calls := millis_calls w + 1\<rparr>) \<and>
         m_humidity (init_readDelay h) = m_humidity h \<and>
         m_temperature (init_readDelay h) = m_temperature h \<and>
         m_lastRead (init_readDelay h) = m_lastRead h \<and>
         m_bits (init_readDelay h) = m_bits h \<and>
         m_type (init_readDelay h) = m_type h"
proof -
  have f: "m_type (init_readDelay h) = m_type h" "m_waitForRead (init_readDelay h) = m_waitForRead h"
    "m_lastRead (init_readDelay h) = m_lastRead h" "m_humidity (init_readDelay h) = m_humidity h"
    "m_temperature (init_readDelay h) = m_temperature h" "m_bits (init_readDelay h) = m_bits h"
    by (simp_all add: init_readDelay_def Let_def)
  have "read_wait (init_readDelay h) w = Some (True, w\<lparr>millis_calls := millis_calls w + 1\<rparr>)"
    using assms by (intro read_wait_return) (simp_all add: f)
  with assms(1) show ?thesis
    by (simp add: read_def Let_def f)
qed

text \<open>
  The detected DHT22, asked again one second after its last read.
\<close>

theorem gate_returns_cached_values_witness:
  "m_type (detected_dht22\<lparr>m_lastRead := 9000\<rparr>) \<noteq> 0 \<and>
   \<not> m_waitForRead (detected_dht22\<lparr>m_lastRead := 9000\<rparr>) \<and>
   millis_clock board_after_detection (millis_calls board_after_detection)
     - m_lastRead (detected_dht22\<lparr>m_lastRead := 9000\<rparr>)
     < ucast (m_readDelay (init_readDelay (detected_dht22\<lparr>m_lastRead := 9000\<rparr>))) \<and>
   read uno (detected_dht22\<lparr>m_lastRead := 9000\<rparr>) board_after_detection =
     Some (DHTLIB_OK, detected_dht22\<lparr>m_lastRead := 9000\<rparr>,
           board_after_detection\<lparr>millis_calls := 2\<rparr>) \<and>
   m_humidity (detected_dht22\<lparr>m_lastRead := 9000\<rparr>) = 60.4 \<and>
   hw_log (board_after_detection\<lparr>millis_calls := 2\<rparr>) = hw_log board_after_detection \<and>
   line_reads (board_after_detection\<lparr>millis_calls := 2\<rparr>) = line_reads board_after_detection"
proof -
  let ?h = "detected_dht22\<lparr>m_lastRead := 9000\<rparr>"
  have i: "init_readDelay ?h = ?h"
    by (simp add: init_readDelay_def detected_dht22_def)
  have a: "m_type ?h \<noteq> 0" "\<not> m_waitForRead ?h" "m_humidity ?h = 60.4"
    by (simp_all add: detected_dht22_def)
  have b: "millis_clock board_after_detection (millis_calls board_after_detection) - m_lastRead ?h
      < ucast (m_readDelay (init_readDelay ?h))"
    by (simp add: i) (simp add: detected_dht22_def board_after_detection_def slow_clock_def)
  have c: "millis_calls board_after_detection = 1"
    by (simp add: board_after_detection_def)
  from gate_returns_cached_values[OF a(1,2) b, of uno] a b show ?thesis
    by (simp add: i c)
qed

text \<open>
  Claim C7. Every reading attempt sets \<^verbatim>\<open>_lastRead\<close> to the time of the attempt, whether
  it succeeds or fails. When the transport fails, the attempt returns the status of the
  transport, and humidity and temperature are set to \<^verbatim>\<open>DHTLIB_INVALID_VALUE\<close> unless
  \<^verbatim>\<open>_suppressError\<close> is set, in which case both keep the values they had before the call. A
  call of \<^verbatim>\<open>read\<close> on an object whose type is set, and which the gate lets through,
  returns that status.
\<close>

theorem transport_failure_propagated:
  assumes "private_readSensor p h w = (rv, h1, w1)"
  shows "m_lastRead (fst (snd (private_read p h w))) = millis_clock w (millis_calls w) \<and>
         (rv \<noteq> DHTLIB_OK \<longrightarrow>
            fst (private_read p h w) = rv \<and>
            (\<not> m_suppressError h \<longrightarrow>
               m_humidity (fst (snd (private_read p h w))) = DHTLIB_INVALID_VALUE p \<and>
               m_temperature (fst (snd (private_read p h w))) = DHTLIB_INVALID_VALUE p) \<and>
            (m_suppressError h \<longrightarrow>
               m_humidity (fst (snd (private_read p h w))) = m_humidity h \<and>
               m_temperature (fst (snd (private_read p h w))) = m_temperature h) \<and>
            (\<forall>h0 w0. m_type h0 \<noteq> 0 \<and> init_readDelay h0 = h \<and> read_wait h w0 = Some (False, w)
               \<longrightarrow> map_option fst (read p h0 w0) = Some rv))"
proof -
  note r = private_readSensor_result[OF assms(1)]
  have "m_humidity h1 = m_humidity h" and "m_temperature h1 = m_temperature h"
    by (subst r(2), simp)+
  then show ?thesis
    using read_known_variant[of _ _ w p]
    by (auto simp: private_read_unfold[OF assms(1)] Let_def decode_values_fields
        apply_offsets_fields)
qed

text \<open>
  The shifted frame makes the transport fail, once without and once with error
  suppression; and so does a board without a sensor, where the first polling loop times
  out.
\<close>

theorem transport_failure_propagated_witness:
  "private_readSensor uno (dht22_sensor False)
      ((sensor_world shifted_then_dht11 slow_clock)\<lparr>millis_calls := 1\<rparr>) =
     (DHTLIB_ERROR_BIT_SHIFT, (dht22_sensor False)\<lparr>m_bits := [0x82, 0x5C, 0x01, 0x04, 0xE3]\<rparr>,
      (sensor_world shifted_then_dht11 slow_clock)
        \<lparr>millis_calls := 1, line_reads := 84, micros_calls := 80,
          hw_log := [Yield, PinMode 6 OUTPUT, DigitalWrite 6 LOW, DelayMicroseconds 1100,
                     PinMode 6 INPUT_PULLUP, NoInterrupts]\<rparr>) \<and>
   DHTLIB_ERROR_BIT_SHIFT \<noteq> DHTLIB_OK \<and>
   fst (private_read uno (dht22_sensor False)
      ((sensor_world shifted_then_dht11 slow_clock)\<lparr>millis_calls := 1\<rparr>)) = DHTLIB_ERROR_BIT_SHIFT \<and>
   m_lastRead (fst (snd (private_read uno (dht22_sensor False)
      ((sensor_world shifted_then_dht11 slow_clock)\<lparr>millis_calls := 1\<rparr>)))) = 10000 \<and>
   m_humidity (fst (snd (private_read uno (dht22_sensor False)
      ((sensor_world shifted_then_dht11 slow_clock)\<lparr>millis_calls := 1\<rparr>)))) = - 999 \<and>
   m_temperature (fst (snd (private_read uno (dht22_sensor False)
      ((sensor_world shifted_then_dht11 slow_clock)\<lparr>millis_calls := 1\<rparr>)))) = - 999 \<and>
   m_humidity (fst (snd (private_read uno ((dht22_sensor True)\<lparr>m_humidity := 60.4\<rparr>)
      ((sensor_world shifted_then_dht11 slow_clock)\<lparr>millis_calls := 1\<rparr>)))) = 60.4 \<and>
   m_temperature (fst (snd (private_read uno ((dht22_sensor True)\<lparr>m_humidity := 60.4\<rparr>)
      ((sensor_world shifted_then_dht11 slow_clock)\<lparr>millis_calls := 1\<rparr>)))) = 0 \<and>
   map_option fst (read uno (dht22_sensor False) (sensor_world shifted_then_dht11 slow_clock))
     = Some DHTLIB_ERROR_BIT_SHIFT \<and>
   fst (private_readSensor uno (dht22_sensor False) silent_board) = DHTLIB_ERROR_SENSOR_NOT_READY \<and>
   fst (private_read uno (dht22_sensor False) silent_board) = DHTLIB_ERROR_SENSOR_NOT_READY \<and>
   m_humidity (fst (snd (private_read uno (dht22_sensor False) silent_board))) = - 999"
proof -
  let ?h = "dht22_sensor False"
  let ?hs = "(dht22_sensor True)\<lparr>m_humidity := 60.4\<rparr>"
  let ?w0 = "sensor_world shifted_then_dht11 slow_clock"
  have pin: "m_dataPin ?h = 6" "ucast (m_wakeupDelay ?h) * 1100 = (1100 :: u32)"
    and f: "m_type ?h \<noteq> 0" "\<not> m_suppressError ?h" "m_suppressError ?hs"
      "m_humidity ?hs = 60.4" "m_temperature ?hs = 0"
    by (simp_all add: dht22_sensor_def)
  have inv: "DHTLIB_INVALID_VALUE uno = - 999"
    by (simp add: uno_def)
  note now = sensor_world_millis slow_clock_def inv
  have ne: "DHTLIB_ERROR_BIT_SHIFT \<noteq> DHTLIB_OK"
    by simp
  note a = transport_failure_propagated[OF sampled_shifted[where h="?h" and ms=slow_clock and k=1]]
  note b = transport_failure_propagated[OF sampled_shifted[where h="?hs" and ms=slow_clock and k=1]]
  have 1: "fst (private_read uno ?h (?w0\<lparr>millis_calls := 1\<rparr>)) = DHTLIB_ERROR_BIT_SHIFT"
    "m_lastRead (fst (snd (private_read uno ?h (?w0\<lparr>millis_calls := 1\<rparr>)))) = 10000"
    "m_humidity (fst (snd (private_read uno ?h (?w0\<lparr>millis_calls := 1\<rparr>)))) = - 999"
    "m_temperature (fst (snd (private_read uno ?h (?w0\<lparr>millis_calls := 1\<rparr>)))) = - 999"
    using a f(2) ne by (simp_all add: now)
  have 2: "m_humidity (fst (snd (private_read uno ?hs (?w0\<lparr>millis_calls := 1\<rparr>)))) = 60.4"
    "m_temperature (fst (snd (private_read uno ?hs (?w0\<lparr>millis_calls := 1\<rparr>)))) = 0"
    using b f(3,4,5) ne by simp_all
  have 3: "map_option fst (read uno ?h ?w0) = Some DHTLIB_ERROR_BIT_SHIFT"
    using a f(1) ne dht22_sensor_init[of False] dht22_sensor_gate_open[of False shifted_then_dht11]
    by blast
  have nr: "fst (private_readSensor uno ?h silent_board) = DHTLIB_ERROR_SENSOR_NOT_READY"
    by (rule silent_line_not_ready) (simp_all add: silent_board_def DHTLIB_TIMEOUT_def uno_def)
  then have rs: "private_readSensor uno ?h silent_board =
      (DHTLIB_ERROR_SENSOR_NOT_READY, fst (snd (private_readSensor uno ?h silent_board)),
       snd (snd (private_readSensor uno ?h silent_board)))"
    by (metis prod.collapse)
  note c = transport_failure_propagated[OF rs]
  have 4: "fst (private_read uno ?h silent_board) = DHTLIB_ERROR_SENSOR_NOT_READY"
    "m_humidity (fst (snd (private_read uno ?h silent_board))) = - 999"
    using c f(2) by (simp_all add: inv)
  from 1 2 3 4 nr ne sampled_shifted[where h="?h" and ms=slow_clock and k=1] show ?thesis
    by (simp add: pin)
qed

text \<open>
  Claim C8. When the forty bits of a frame have been sampled (the transport did not time
  out) and the most significant bit of the first byte is set, the transport reports
  \<open>DHTLIB_ERROR_BIT_SHIFT\<close>, and so does the reading attempt, whatever the checksum byte
  holds: the attempt returns before the values are decoded and before the checksum is
  compared, so the values are the invalid value, or the old ones under error suppression.
\<close>

theorem bit_shift_rejected:
  assumes "private_readSensor p h w = (rv, h1, w1)"
    and "rv \<notin> {DHTLIB_ERROR_SENSOR_NOT_READY, DHTLIB_ERROR_TIMEOUT_A, DHTLIB_ERROR_TIMEOUT_B,
                DHTLIB_ERROR_TIMEOUT_C, DHTLIB_ERROR_TIMEOUT_D}"
    and "bit (m_bits h1 ! 0) 7"
  shows "rv = DHTLIB_ERROR_BIT_SHIFT \<and>
         fst (private_read p h w) = DHTLIB_ERROR_BIT_SHIFT \<and>
         fst (private_read p h w) \<noteq> test_checksum h1 \<and>
         m_humidity (fst (snd (private_read p h w))) =
           (if m_suppressError h then m_humidity h else DHTLIB_INVALID_VALUE p) \<and>
         m_temperature (fst (snd (private_read p h w))) =
           (if m_suppressError h then m_temperature h else DHTLIB_INVALID_VALUE p)"
proof -
  note r = private_readSensor_result[OF assms(1)]
  from assms(2) r(1) have "rv = DHTLIB_OK \<or> rv = DHTLIB_ERROR_BIT_SHIFT"
    by (cases rv) auto
  with r(4) assms(3) have rv: "rv = DHTLIB_ERROR_BIT_SHIFT"
    by (simp add: msb_bit)
  have "m_humidity h1 = m_humidity h" and "m_temperature h1 = m_temperature h"
    by (subst r(2), simp)+
  with rv show ?thesis
    by (auto simp: private_read_unfold[OF assms(1)] Let_def test_checksum_def)
qed

text \<open>
  The shifted frame of the simulated sensor has a checksum byte that fits, and is
  rejected all the same.
\<close>

theorem bit_shift_rejected_witness:
  "private_readSensor uno (dht22_sensor False)
      ((sensor_world shifted_then_dht11 slow_clock)\<lparr>millis_calls := 1\<rparr>) =
     (DHTLIB_ERROR_BIT_SHIFT, (dht22_sensor False)\<lparr>m_bits := [0x82, 0x5C, 0x01, 0x04, 0xE3]\<rparr>,
      (sensor_world shifted_then_dht11 slow_clock)
        \<lparr>millis_calls := 1, line_reads := 84, micros_calls := 80,
          hw_log := [Yield, PinMode 6 OUTPUT, DigitalWrite 6 LOW, DelayMicroseconds 1100,
                     PinMode 6 INPUT_PULLUP, NoInterrupts]\<rparr>) \<and>
   bit (m_bits ((dht22_sensor False)\<lparr>m_bits := [0x82, 0x5C, 0x01, 0x04, 0xE3]\<rparr>) ! 0) 7 \<and>
   test_checksum ((dht22_sensor False)\<lparr>m_bits := [0x82, 0x5C, 0x01, 0x04, 0xE3]\<rparr>) = DHTLIB_OK \<and>
   fst (private_read uno (dht22_sensor False)
      ((sensor_world shifted_then_dht11 slow_clock)\<lparr>millis_calls := 1\<rparr>)) = DHTLIB_ERROR_BIT_SHIFT \<and>
   m_humidity (fst (snd (private_read uno (dht22_sensor False)
      ((sensor_world shifted_then_dht11 slow_clock)\<lparr>millis_calls := 1\<rparr>)))) = - 999"
proof -
  let ?h = "dht22_sensor False"
  let ?w = "(sensor_world shifted_then_dht11 slow_clock)\<lparr>millis_calls := 1\<rparr>"
  have pin: "m_dataPin ?h = 6" "ucast (m_wakeupDelay ?h) * 1100 = (1100 :: u32)"
    and f: "\<not> m_suppressError ?h" "DHTLIB_INVALID_VALUE uno = - 999"
    by (simp_all add: dht22_sensor_def uno_def)
  have sampled: "DHTLIB_ERROR_BIT_SHIFT \<notin> {DHTLIB_ERROR_SENSOR_NOT_READY, DHTLIB_ERROR_TIMEOUT_A,
      DHTLIB_ERROR_TIMEOUT_B, DHTLIB_ERROR_TIMEOUT_C, DHTLIB_ERROR_TIMEOUT_D}"
    by simp
  have msb: "bit (m_bits (?h\<lparr>m_bits := [0x82, 0x5C, 0x01, 0x04, 0xE3]\<rparr>) ! 0) 7"
    by simp
  have cs: "test_checksum (?h\<lparr>m_bits := [0x82, 0x5C, 0x01, 0x04, 0xE3]\<rparr>) = DHTLIB_OK"
    by (simp add: test_checksum_def)
  note a = bit_shift_rejected[OF sampled_shifted[where h="?h" and ms=slow_clock and k=1] sampled msb]
  have 1: "fst (private_read uno ?h ?w) = DHTLIB_ERROR_BIT_SHIFT"
    "m_humidity (fst (snd (private_read uno ?h ?w))) = - 999"
    using a f by simp_all
  from 1 msb cs sampled_shifted[where h="?h" and ms=slow_clock and k=1] show ?thesis
    by (simp add: pin)
qed

text \<open>
  Claim C9 at its failing input. The read delay is fixed at the first call of
  \<^verbatim>\<open>read\<close>, before the detection, when the type is still 0: a fresh object that detects a
  DHT11 keeps the delay of the DHT22, 2000 ms, not the 1000 ms of
  \<^verbatim>\<open>DHTLIB_DHT11_READ_DELAY\<close>.
\<close>

theorem auto_detected_dht11_read_delay:
  "m_type fresh_sensor = 0 \<and> m_readDelay fresh_sensor = 0 \<and>
   map_option fst (read uno fresh_sensor (sensor_world shifted_then_dht11 slow_clock)) =
     Some DHTLIB_OK \<and>
   map_option (m_type \<circ> fst \<circ> snd)
     (read uno fresh_sensor (sensor_world shifted_then_dht11 slow_clock)) = Some 11 \<and>
   map_option (m_readDelay \<circ> fst \<circ> snd)
     (read uno fresh_sensor (sensor_world shifted_then_dht11 slow_clock)) = Some 2000 \<and>
   DHTLIB_DHT11_READ_DELAY = 1000"
  using fresh_detects_dht11
  by (auto simp: fresh_sensor_def DHTLIB_DHT11_READ_DELAY_def)

text \<open>
  Claim C10. \<^verbatim>\<open>powerUp\<close> writes the line high and calls \<^verbatim>\<open>read\<close>; it leaves the object
  and the board exactly as that call leaves them, and the status of the call is not part
  of what it returns. The effects, written out: on an object of type 0 it always returns,
  after one attempt (type 22 afterwards) or two (type 11 or 0 afterwards), with
  \<^verbatim>\<open>_lastRead\<close> at the time of the last attempt and the attempts in the log after the
  write. On an object whose type is set and whose read delay has elapsed it makes one
  attempt: the type is kept, \<^verbatim>\<open>_lastRead\<close> is the time of the attempt, the buffer holds the
  frame, and humidity and temperature are the values computed from the frame if the
  transport succeeded and the invalid value (or the old values under error suppression)
  if it failed. Within the read delay, without waiting, it only writes the line and asks
  the time.
\<close>

theorem powerUp_reads_and_drops_status:
  "powerUp h p w =
     map_option (\<lambda>(rv, h1, w1). (h1, w1)) (read p h (digitalWrite (m_dataPin h) HIGH w)) \<and>
   (m_type h = 0 \<longrightarrow>
      (\<exists>h' w'. powerUp h p w = Some (h', w') \<and>
         (m_type h' = 22 \<or> m_type h' = 11 \<or> m_type h' = 0) \<and>
         (m_type h' = 22 \<longrightarrow>
            (h', w') = snd (private_read p
               ((init_readDelay h)\<lparr>m_type := 22, m_wakeupDelay := DHTLIB_DHT_WAKEUP\<rparr>)
               (digitalWrite (m_dataPin h) HIGH w)) \<and>
            m_lastRead h' = millis_clock w (millis_calls w) \<and>
            hw_log w' = hw_log w @ DigitalWrite (m_dataPin h) HIGH # attempt_log (m_dataPin h) 1) \<and>
         (m_type h' \<noteq> 22 \<longrightarrow>
            m_lastRead h' = millis_clock w (millis_calls w + 1) \<and>
            hw_log w' = hw_log w @ DigitalWrite (m_dataPin h) HIGH #
                          attempt_log (m_dataPin h) 1 @ attempt_log (m_dataPin h) 18))) \<and>
   (m_type h \<noteq> 0 \<and>
    \<not> millis_clock w (millis_calls w) - m_lastRead h < ucast (m_readDelay (init_readDelay h)) \<longrightarrow>
      (\<exists>h' w'. powerUp h p w = Some (h', w') \<and>
         m_type h' = m_type h \<and>
         m_lastRead h' = millis_clock w (millis_calls w + 1) \<and>
         hw_log w' = hw_log w @ DigitalWrite (m_dataPin h) HIGH #
                       attempt_log (m_dataPin h) (m_wakeupDelay h) \<and>
         (case private_readSensor p (init_readDelay h)
                 ((digitalWrite (m_dataPin h) HIGH w)\<lparr>millis_calls := millis_calls w + 1\<rparr>) of
            (rv, h1, w1) \<Rightarrow>
              m_bits h' = m_bits h1 \<and>
              (rv = DHTLIB_OK \<longrightarrow>
                 m_humidity h' =
                   constrain ((if m_type h = 22
                               then real_of_int (uint (m_bits h1 ! 0) * 256 + uint (m_bits h1 ! 1)) * 0.1
                               else real_of_int (uint (m_bits h1 ! 0))
                                      + real_of_int (uint (m_bits h1 ! 1)) * 0.1)
                              + m_humOffset h) 0 100 \<and>
                 m_temperature h' =
                   (if bit (m_bits h1 ! 2) 7
                    then - (if m_type h = 22
                            then real_of_int (uint (m_bits h1 ! 2 AND 0x7F) * 256
                                                + uint (m_bits h1 ! 3)) * 0.1
                            else real_of_int (uint (m_bits h1 ! 2))
                                   + real_of_int (uint (m_bits h1 ! 3)) * 0.1)
                    else (if m_type h = 22
                          then real_of_int (uint (m_bits h1 ! 2 AND 0x7F) * 256
                                              + uint (m_bits h1 ! 3)) * 0.1
                          else real_of_int (uint (m_bits h1 ! 2))
                                 + real_of_int (uint (m_bits h1 ! 3)) * 0.1))
                   + m_tempOffset h) \<and>
              (rv \<noteq> DHTLIB_OK \<longrightarrow>
                 m_humidity h' =
                   (if m_suppressError h then m_humidity h else DHTLIB_INVALID_VALUE p) \<and>
                 m_temperature h' =
                   (if m_suppressError h then m_temperature h else DHTLIB_INVALID_VALUE p))))) \<and>
   (m_type h \<noteq> 0 \<and> \<not> m_waitForRead h \<and>
    millis_clock w (millis_calls w) - m_lastRead h < ucast (m_readDelay (init_readDelay h)) \<longrightarrow>
      powerUp h p w =
        Some (init_readDelay h,
              (digitalWrite (m_dataPin h) HIGH w)\<lparr>millis_calls := millis_calls w + 1\<rparr>))"
proof -
  let ?w0 = "digitalWrite (m_dataPin h) HIGH w"
  let ?hi = "init_readDelay h"
  have eq: "powerUp h p w = map_option (\<lambda>(rv, h1, w1). (h1, w1)) (read p h ?w0)"
    by (simp add: powerUp_def split: option.splits)
  have unknown: "\<exists>h' w'. powerUp h p w = Some (h', w') \<and>
         (m_type h' = 22 \<or> m_type h' = 11 \<or> m_type h' = 0) \<and>
         (m_type h' = 22 \<longrightarrow>
            (h', w') = snd (private_read p
               (?hi\<lparr>m_type := 22, m_wakeupDelay := DHTLIB_DHT_WAKEUP\<rparr>) ?w0) \<and>
            m_lastRead h' = millis_clock w (millis_calls w) \<and>
            hw_log w' = hw_log w @ DigitalWrite (m_dataPin h) HIGH # attempt_log (m_dataPin h) 1) \<and>
         (m_type h' \<noteq> 22 \<longrightarrow>
            m_lastRead h' = millis_clock w (millis_calls w + 1) \<and>
            hw_log w' = hw_log w @ DigitalWrite (m_dataPin h) HIGH #
                          attempt_log (m_dataPin h) 1 @ attempt_log (m_dataPin h) 18)"
    if u: "m_type h = 0"
  proof -
    obtain rv1 h1 w1 where pr1: "private_read p
        (?hi\<lparr>m_type := 22, m_wakeupDelay := DHTLIB_DHT_WAKEUP\<rparr>) ?w0 = (rv1, h1, w1)"
      using prod_cases3 by blast
    obtain rv2 h2 w2 where pr2: "private_read p
        (h1\<lparr>m_type := 11, m_wakeupDelay := DHTLIB_DHT11_WAKEUP\<rparr>) w1 = (rv2, h2, w2)"
      using prod_cases3 by blast
    note f1 = private_read_fields[OF pr1]
    note f2 = private_read_fields[OF pr2]
    have a1: "m_type h1 = 22" "m_lastRead h1 = millis_clock w (millis_calls w)"
      "hw_log w1 = hw_log w @ DigitalWrite (m_dataPin h) HIGH # attempt_log (m_dataPin h) 1"
      "m_dataPin h1 = m_dataPin h" "millis_calls w1 = millis_calls w + 1"
      "millis_clock w1 = millis_clock w"
      using f1 by (simp_all add: digitalWrite_fields init_readDelay_fields DHTLIB_DHT_WAKEUP_def)
    have a2: "m_type h2 = 11" "m_lastRead h2 = millis_clock w (millis_calls w + 1)"
      "hw_log w2 = hw_log w @ DigitalWrite (m_dataPin h) HIGH #
                     attempt_log (m_dataPin h) 1 @ attempt_log (m_dataPin h) 18"
      using f2 a1 by (simp_all add: DHTLIB_DHT11_WAKEUP_def)
    note rd = read_unknown_variant[OF u pr1 pr2]
    show ?thesis
    proof (cases "rv1 = DHTLIB_OK")
      case True
      with rd eq pr1 a1 show ?thesis
        by simp
    next
      case False
      with rd eq a2 show ?thesis
        by (cases "rv2 = DHTLIB_OK") simp_all
    qed
  qed
  have known: "\<exists>h' w'. powerUp h p w = Some (h', w') \<and>
         m_type h' = m_type h \<and>
         m_lastRead h' = millis_clock w (millis_calls w + 1) \<and>
         hw_log w' = hw_log w @ DigitalWrite (m_dataPin h) HIGH #
                       attempt_log (m_dataPin h) (m_wakeupDelay h) \<and>
         (case private_readSensor p ?hi (?w0\<lparr>millis_calls := millis_calls w + 1\<rparr>) of
            (rv, h1, w1) \<Rightarrow>
              m_bits h' = m_bits h1 \<and>
              (rv = DHTLIB_OK \<longrightarrow>
                 m_humidity h' =
                   constrain ((if m_type h = 22
                               then real_of_int (uint (m_bits h1 ! 0) * 256 + uint (m_bits h1 ! 1)) * 0.1
                               else real_of_int (uint (m_bits h1 ! 0))
                                      + real_of_int (uint (m_bits h1 ! 1)) * 0.1)
                              + m_humOffset h) 0 100 \<and>
                 m_temperature h' =
                   (if bit (m_bits h1 ! 2) 7
                    then - (if m_type h = 22
                            then real_of_int (uint (m_bits h1 ! 2 AND 0x7F) * 256
                                                + uint (m_bits h1 ! 3)) * 0.1
                            else real_of_int (uint (m_bits h1 ! 2))
                                   + real_of_int (uint (m_bits h1 ! 3)) * 0.1)
                    else (if m_type h = 22
                          then real_of_int (uint (m_bits h1 ! 2 AND 0x7F) * 256
                                              + uint (m_bits h1 ! 3)) * 0.1
                          else real_of_int (uint (m_bits h1 ! 2))
                                 + real_of_int (uint (m_bits h1 ! 3)) * 0.1))
                   + m_tempOffset h) \<and>
              (rv \<noteq> DHTLIB_OK \<longrightarrow>
                 m_humidity h' =
                   (if m_suppressError h then m_humidity h else DHTLIB_INVALID_VALUE p) \<and>
                 m_temperature h' =
                   (if m_suppressError h then m_temperature h else DHTLIB_INVALID_VALUE p)))"
    if k: "m_type h \<noteq> 0"
      and e: "\<not> millis_clock w (millis_calls w) - m_lastRead h < ucast (m_readDelay ?hi)"
  proof -
    let ?wg = "?w0\<lparr>millis_calls := millis_calls w + 1\<rparr>"
    have "read_wait ?hi ?w0 = Some (False, ?w0\<lparr>millis_calls := millis_calls ?w0 + 1\<rparr>)"
      using e by (intro read_wait_elapsed) (simp add: digitalWrite_fields init_readDelay_fields)
    then have g: "read_wait ?hi ?w0 = Some (False, ?wg)"
      by (simp add: digitalWrite_fields)
    obtain rv h1 w1 where rs: "private_readSensor p ?hi ?wg = (rv, h1, w1)"
      using prod_cases3 by blast
    obtain rv' h' w' where pr: "private_read p ?hi ?wg = (rv', h', w')"
      using prod_cases3 by blast
    note fp = private_read_fields[OF pr]
    have pu: "powerUp h p w = Some (h', w')"
      using read_known_variant[OF k g, of p] eq pr by simp
    have h': "h' = fst (snd (private_read p ?hi ?wg))"
      using pr by simp
    have b: "m_type h' = m_type h" "m_lastRead h' = millis_clock w (millis_calls w + 1)"
      "hw_log w' = hw_log w @ DigitalWrite (m_dataPin h) HIGH #
                     attempt_log (m_dataPin h) (m_wakeupDelay h)"
      using fp by (simp_all add: digitalWrite_fields init_readDelay_fields)
    have i: "m_humOffset ?hi = m_humOffset h" "m_tempOffset ?hi = m_tempOffset h"
      by (simp_all add: init_readDelay_def Let_def)
    have v: "m_bits h' = m_bits h1 \<and>
              (rv = DHTLIB_OK \<longrightarrow>
                 m_humidity h' =
                   constrain ((if m_type h = 22
                               then real_of_int (uint (m_bits h1 ! 0) * 256 + uint (m_bits h1 ! 1)) * 0.1
                               else real_of_int (uint (m_bits h1 ! 0))
                                      + real_of_int (uint (m_bits h1 ! 1)) * 0.1)
                              + m_humOffset h) 0 100 \<and>
                 m_temperature h' =
                   (if bit (m_bits h1 ! 2) 7
                    then - (if m_type h = 22
                            then real_of_int (uint (m_bits h1 ! 2 AND 0x7F) * 256
                                                + uint (m_bits h1 ! 3)) * 0.1
                            else real_of_int (uint (m_bits h1 ! 2))
                                   + real_of_int (uint (m_bits h1 ! 3)) * 0.1)
                    else (if m_type h = 22
                          then real_of_int (uint (m_bits h1 ! 2 AND 0x7F) * 256
                                              + uint (m_bits h1 ! 3)) * 0.1
                          else real_of_int (uint (m_bits h1 ! 2))
                                 + real_of_int (uint (m_bits h1 ! 3)) * 0.1))
                   + m_tempOffset h) \<and>
              (rv \<noteq> DHTLIB_OK \<longrightarrow>
                 m_humidity h' =
                   (if m_suppressError h then m_humidity h else DHTLIB_INVALID_VALUE p) \<and>
                 m_temperature h' =
                   (if m_suppressError h then m_temperature h else DHTLIB_INVALID_VALUE p))"
    proof (cases "rv = DHTLIB_OK")
      case True
      with rs have rs': "private_readSensor p ?hi ?wg = (DHTLIB_OK, h1, w1)"
        by simp
      from stored_values[OF rs'] True show ?thesis
        by (simp add: h' init_readDelay_fields i)
    next
      case False
      from failed_values[OF rs False] False show ?thesis
        by (simp add: h' init_readDelay_fields)
    qed
    from pu b v rs show ?thesis
      by simp
  qed
  have gated: "powerUp h p w = Some (?hi, ?w0\<lparr>millis_calls := millis_calls w + 1\<rparr>)"
    if k: "m_type h \<noteq> 0" and nw: "\<not> m_waitForRead h"
      and c: "millis_clock w (millis_calls w) - m_lastRead h < ucast (m_readDelay ?hi)"
  proof -
    have "read_wait ?hi ?w0 = Some (True, ?w0\<lparr>millis_calls := millis_calls ?w0 + 1\<rparr>)"
      using c nw by (intro read_wait_return) (simp_all add: digitalWrite_fields init_readDelay_fields)
    with k eq show ?thesis
      by (simp add: read_def Let_def init_readDelay_fields digitalWrite_fields)
  qed
  from eq unknown known gated show ?thesis
    by blast
qed

text \<open>
  Three runs. The fresh object on the simulated DHT22: the read returns
  \<open>DHTLIB_OK\<close>, and the object comes back with type 22, 60.4 percent and -5.0 degrees.
  The DHT22 object on the shifted frame: the read returns \<open>DHTLIB_ERROR_BIT_SHIFT\<close>,
  and the object comes back with the invalid value and the new time stamp; nothing in
  the result tells the two outcomes apart but the state of the object. The detected
  object one second after its last read: nothing but the write and the clock.
\<close>

theorem powerUp_reads_and_drops_status_witness:
  "m_type fresh_sensor = 0 \<and>
   map_option fst (read uno fresh_sensor
      (digitalWrite (m_dataPin fresh_sensor) HIGH (sensor_world good_then_bad slow_clock)))
     = Some DHTLIB_OK \<and>
   powerUp fresh_sensor uno (sensor_world good_then_bad slow_clock) =
     Some (detected_dht22,
           board_after_detection\<lparr>hw_log := DigitalWrite 6 HIGH # attempt_log 6 1\<rparr>) \<and>
   m_humidity detected_dht22 = 60.4 \<and> m_temperature detected_dht22 = - 5 \<and>
   m_type detected_dht22 = 22 \<and> m_lastRead detected_dht22 = 5000 \<and>
   m_type (dht22_sensor False) \<noteq> 0 \<and>
   \<not> millis_clock (sensor_world shifted_then_dht11 slow_clock)
        (millis_calls (sensor_world shifted_then_dht11 slow_clock))
      - m_lastRead (dht22_sensor False)
      < ucast (m_readDelay (init_readDelay (dht22_sensor False))) \<and>
   map_option fst (read uno (dht22_sensor False)
      (digitalWrite (m_dataPin (dht22_sensor False)) HIGH
         (sensor_world shifted_then_dht11 slow_clock)))
     = Some DHTLIB_ERROR_BIT_SHIFT \<and>
   map_option (m_humidity \<circ> fst)
     (powerUp (dht22_sensor False) uno (sensor_world shifted_then_dht11 slow_clock)) = Some (- 999) \<and>
   map_option (m_temperature \<circ> fst)
     (powerUp (dht22_sensor False) uno (sensor_world shifted_then_dht11 slow_clock)) = Some (- 999) \<and>
   map_option (m_lastRead \<circ> fst)
     (powerUp (dht22_sensor False) uno (sensor_world shifted_then_dht11 slow_clock)) = Some 10000 \<and>
   map_option (m_type \<circ> fst)
     (powerUp (dht22_sensor False) uno (sensor_world shifted_then_dht11 slow_clock)) = Some 22 \<and>
   map_option (hw_log \<circ> snd)
     (powerUp (dht22_sensor False) uno (sensor_world shifted_then_dht11 slow_clock)) =
     Some (DigitalWrite 6 HIGH # attempt_log 6 1) \<and>
   m_type (detected_dht22\<lparr>m_lastRead := 9000\<rparr>) \<noteq> 0 \<and>
   \<not> m_waitForRead (detected_dht22\<lparr>m_lastRead := 9000\<rparr>) \<and>
   millis_clock board_after_detection (millis_calls board_after_detection)
     - m_lastRead (detected_dht22\<lparr>m_lastRead := 9000\<rparr>)
     < ucast (m_readDelay (init_readDelay (detected_dht22\<lparr>m_lastRead := 9000\<rparr>))) \<and>
   powerUp (detected_dht22\<lparr>m_lastRead := 9000\<rparr>) uno board_after_detection =
     Some (detected_dht22\<lparr>m_lastRead := 9000\<rparr>,
           board_after_detection
             \<lparr>hw_log := hw_log board_after_detection @ [DigitalWrite 6 HIGH], millis_calls := 2\<rparr>)"
proof -
  let ?W0 = "sensor_world good_then_bad slow_clock"
  let ?WS = "sensor_world shifted_then_dht11 slow_clock"
  let ?hk = "dht22_sensor False"
  let ?hg = "detected_dht22\<lparr>m_lastRead := 9000\<rparr>"
  have f: "m_type fresh_sensor = 0" "m_dataPin fresh_sensor = 6"
    by (simp_all add: fresh_sensor_def)
  have d: "m_humidity detected_dht22 = 60.4" "m_temperature detected_dht22 = - 5"
    "m_type detected_dht22 = 22" "m_lastRead detected_dht22 = 5000"
    by (simp_all add: detected_dht22_def)
  have bl: "hw_log board_after_detection = attempt_log 6 1"
    by (simp add: board_after_detection_def attempt_log_def)
  note T1 = powerUp_reads_and_drops_status[of fresh_sensor uno ?W0, THEN conjunct1]
  have 1: "powerUp fresh_sensor uno ?W0 =
      Some (detected_dht22, board_after_detection\<lparr>hw_log := DigitalWrite 6 HIGH # attempt_log 6 1\<rparr>)"
    using T1 by (simp add: f powerUp_fresh_run bl)
  have r1: "map_option fst (read uno fresh_sensor (digitalWrite (m_dataPin fresh_sensor) HIGH ?W0))
      = Some DHTLIB_OK"
    by (simp add: f powerUp_fresh_run)
  have k: "m_type ?hk \<noteq> 0" "m_dataPin ?hk = 6" "m_wakeupDelay ?hk = 1" "m_type ?hk = 22"
    "\<not> m_suppressError ?hk" "init_readDelay ?hk = ?hk"
    by (simp_all add: dht22_sensor_def init_readDelay_def)
  have e: "\<not> millis_clock ?WS (millis_calls ?WS) - m_lastRead ?hk
      < ucast (m_readDelay (init_readDelay ?hk))"
    by (simp add: k(6)) (simp add: dht22_sensor_def sensor_world_def slow_clock_def)
  have ws: "millis_calls ?WS + 1 = 1" "millis_clock ?WS 1 = 10000" "hw_log ?WS = []"
    "DHTLIB_INVALID_VALUE uno = - 999"
    by (simp_all add: sensor_world_def slow_clock_def uno_def)
  from powerUp_reads_and_drops_status[of ?hk uno ?WS, THEN conjunct2, THEN conjunct2,
      THEN conjunct1, rule_format, OF conjI[OF k(1) e]]
  obtain h' w' where pu: "powerUp ?hk uno ?WS = Some (h', w')"
    and 2: "m_type h' = 22" "m_lastRead h' = 10000"
      "hw_log w' = DigitalWrite 6 HIGH # attempt_log 6 1"
      "m_humidity h' = - 999" "m_temperature h' = - 999"
    by (simp only: k ws powerUp_shifted_run) (auto simp: k ws)
  have rk: "read_wait ?hk (digitalWrite 6 HIGH ?WS) =
      Some (False, (digitalWrite 6 HIGH ?WS)\<lparr>millis_calls := 1\<rparr>)"
    by (subst read_wait_elapsed)
       (simp_all add: dht22_sensor_def digitalWrite_def emit_def sensor_world_def slow_clock_def)
  have st: "fst (private_read uno ?hk ((digitalWrite 6 HIGH ?WS)\<lparr>millis_calls := 1\<rparr>))
      = DHTLIB_ERROR_BIT_SHIFT"
    by (subst private_read_unfold[OF powerUp_shifted_run]) (simp add: Let_def)
  have r2: "map_option fst (read uno ?hk (digitalWrite (m_dataPin ?hk) HIGH ?WS))
      = Some DHTLIB_ERROR_BIT_SHIFT"
    using read_known_variant[OF k(1), of "digitalWrite 6 HIGH ?WS" _ uno] rk st
    by (simp add: k)
  have g: "m_type ?hg \<noteq> 0" "\<not> m_waitForRead ?hg" "init_readDelay ?hg = ?hg" "m_dataPin ?hg = 6"
    by (simp_all add: detected_dht22_def init_readDelay_def)
  have c: "millis_clock board_after_detection (millis_calls board_after_detection) - m_lastRead ?hg
      < ucast (m_readDelay (init_readDelay ?hg))"
    by (simp add: g(3)) (simp add: detected_dht22_def board_after_detection_def slow_clock_def)
  have mc: "millis_calls board_after_detection = 1"
    by (simp add: board_after_detection_def)
  from powerUp_reads_and_drops_status[of ?hg uno board_after_detection, THEN conjunct2,
      THEN conjunct2, THEN conjunct2, rule_format, OF conjI[OF g(1) conjI[OF g(2) c]]]
  have 3: "powerUp ?hg uno board_after_detection =
     Some (?hg, board_after_detection
             \<lparr>hw_log := hw_log board_after_detection @ [DigitalWrite 6 HIGH], millis_calls := 2\<rparr>)"
    by (simp add: g mc digitalWrite_def emit_def)
  from 1 r1 2 r2 3 pu f(1) d k(1) e g(1,2) c show ?thesis
    by simp
qed

end
